theory Spec2Isabelle
  imports Main "HOL-Library.Sublist"
begin

section \<open>Strings and the Python built-ins that app/main.py relies on\<close>

text \<open>
  Python strings are modelled as \<open>string\<close> (lists of characters). The three
  characters that the source names by escape sequences get names of their own.
\<close>

definition squote :: char where
  "squote = CHR 0x27"

definition dquote :: char where
  "dquote = CHR 0x22"

definition newline :: char where
  "newline = CHR 0x0A"

text \<open>
  \<open>s.replace(old, new)\<close> for a one-character \<open>old\<close>: every occurrence is
  replaced, left to right.
\<close>

fun replace :: "string \<Rightarrow> char \<Rightarrow> string \<Rightarrow> string" where
  "replace [] old new = []"
| "replace (c # s) old new = (if c = old then new @ replace s old new else c # replace s old new)"

text \<open>\<open>sep.join(xs)\<close>.\<close>

fun join :: "string \<Rightarrow> string list \<Rightarrow> string" where
  "join sep [] = []"
| "join sep [x] = x"
| "join sep (x # y # ys) = x @ sep @ join sep (y # ys)"

text \<open>
  \<open>s.lower()\<close>. Only the ASCII letters are mapped; no character outside ASCII
  lower-cases to a letter that occurs in a key of \<open>SUPPORTED_FORMATS\<close>, so the
  membership tests of the source are not affected by this restriction.
\<close>

definition ascii_uppercase :: string where
  "ascii_uppercase = ''ABCDEFGHIJKLMNOPQRSTUVWXYZ''"

definition ascii_lowercase :: string where
  "ascii_lowercase = ''abcdefghijklmnopqrstuvwxyz''"

definition lower_char :: "char \<Rightarrow> char" where
  "lower_char c = (case map_of (zip ascii_uppercase ascii_lowercase) c of Some l \<Rightarrow> l | None \<Rightarrow> c)"

definition lower :: "string \<Rightarrow> string" where
  "lower s = map lower_char s"

text \<open>\<open>s.rfind(c)\<close>: the index of the last occurrence of \<open>c\<close>, or \<open>-1\<close>.\<close>

fun rfind :: "string \<Rightarrow> char \<Rightarrow> int" where
  "rfind [] c = - 1"
| "rfind (x # xs) c =
     (let r = rfind xs c in if 0 \<le> r then r + 1 else if x = c then 0 else - 1)"

text \<open>
  \<open>os.path.splitext\<close> (POSIX: separator \<open>/\<close>, extension separator \<open>.\<close>).
  The library's loop walks from the start of the last path component to the last dot
  and returns at the first character that is not a dot; a component made of leading
  dots only has no extension.
\<close>

function skip_leading_dots :: "string \<Rightarrow> nat \<Rightarrow> nat \<Rightarrow> bool" where
  "skip_leading_dots p filenameIndex dotIndex =
     (if filenameIndex < dotIndex
      then (if p ! filenameIndex \<noteq> CHR ''.'' then True
            else skip_leading_dots p (Suc filenameIndex) dotIndex)
      else False)"
  by pat_completeness auto
termination
  by (relation "measure (\<lambda>(p, filenameIndex, dotIndex). dotIndex - filenameIndex)") auto

declare skip_leading_dots.simps [simp del]

definition splitext :: "string \<Rightarrow> string \<times> string" where
  "splitext p =
     (let sepIndex = rfind p CHR ''/'';
          dotIndex = rfind p CHR ''.''
      in if sepIndex < dotIndex \<and> skip_leading_dots p (nat (sepIndex + 1)) (nat dotIndex)
         then (take (nat dotIndex) p, drop (nat dotIndex) p)
         else (p, []))"

section \<open>The format dispatcher\<close>

datatype loader =
    PyPDFLoader
  | Docx2txtLoader
  | UnstructuredPowerPointLoader
  | UnstructuredCSVLoader
  | JSONLoader
  | TextLoader

text \<open>
  Exceptions as values. \<open>Exception\<close> stands for whatever an external collaborator
  raises, carrying the text that \<open>str(e)\<close> gives for it.
  \<open>RequestValidationError\<close> is what the web framework raises, and answers with
  status 422, when a request lacks a parameter that the endpoint declares as required;
  it names the parameter.
\<close>

datatype exn =
    ValueError string
  | HTTPException nat string
  | RequestValidationError string
  | Exception string

definition SUPPORTED_FORMATS :: "(string \<times> loader) list" where
  "SUPPORTED_FORMATS =
     [(''.pdf'', PyPDFLoader),
      (''.docx'', Docx2txtLoader),
      (''.doc'', Docx2txtLoader),
      (''.pptx'', UnstructuredPowerPointLoader),
      (''.ppt'', UnstructuredPowerPointLoader),
      (''.csv'', UnstructuredCSVLoader),
      (''.json'', JSONLoader),
      (''.txt'', TextLoader)]"

definition get_file_loader :: "string \<Rightarrow> exn + loader" where
  "get_file_loader file_path =
     (let ext = lower (snd (splitext file_path))
      in case map_of SUPPORTED_FORMATS ext of
           None \<Rightarrow> Inl (ValueError (''Unsupported file format: '' @ ext))
         | Some LoaderClass \<Rightarrow> Inr LoaderClass)"

section \<open>Prompt assembly\<close>

definition escape_context :: "string \<Rightarrow> string" where
  "escape_context context = replace (replace (replace context squote []) dquote []) newline '' ''"

definition generate_rag_prompt :: "string \<Rightarrow> string \<Rightarrow> string" where
  "generate_rag_prompt query context =
     (let escaped = escape_context context
      in [newline]
       @ ''    You are a helpful and informative assistant that answers questions using the provided reference context.'' @ [newline]
       @ ''    Provide comprehensive answers while maintaining a conversational tone for non-technical audiences.'' @ [newline]
       @ ''    Break down complex concepts into simpler terms.'' @ [newline]
       @ ''    If the context doesn'' @ [squote] @ ''t contain relevant information, acknowledge that and provide a general response.'' @ [newline]
       @ ''    '' @ [newline]
       @ ''    QUESTION: '' @ [squote] @ query @ [squote] @ [newline]
       @ ''    CONTEXT: '' @ [squote] @ escaped @ [squote] @ [newline]
       @ ''    '' @ [newline]
       @ ''    ANSWER:'' @ [newline]
       @ ''    '')"

section \<open>Configuration read at import time\<close>

text \<open>
  \<open>os.environ\<close> is a map from names to values; \<open>os.getenv(k)\<close> is \<open>None\<close> for
  a name that is not set. Python's truth value of \<open>None\<close> and of the empty string
  is false, which is what \<open>all([...])\<close> tests.
\<close>

type_synonym environ = "string \<rightharpoonup> string"

definition getenv :: "environ \<Rightarrow> string \<Rightarrow> string option" where
  "getenv environ k = environ k"

definition getenv_default :: "environ \<Rightarrow> string \<Rightarrow> 'a \<Rightarrow> string + 'a" where
  "getenv_default environ k d = (case environ k of Some v \<Rightarrow> Inl v | None \<Rightarrow> Inr d)"

fun truthy :: "string option \<Rightarrow> bool" where
  "truthy None = False"
| "truthy (Some s) = (s \<noteq> [])"

record config =
  GEMINI_API_KEY :: "string option"
  BUCKET_NAME :: "string option"
  DB_CONNECTION :: "string option"

definition load_config :: "environ \<Rightarrow> exn + config" where
  "load_config environ =
     (let cfg = \<lparr>GEMINI_API_KEY = getenv environ ''GEMINI_API_KEY'',
                 BUCKET_NAME = getenv environ ''GCS_BUCKET_NAME'',
                 DB_CONNECTION = getenv environ ''DATABASE_URL''\<rparr>
      in if \<not> list_all truthy [GEMINI_API_KEY cfg, BUCKET_NAME cfg, DB_CONNECTION cfg]
         then Inl (ValueError ''Missing required environment variables'')
         else Inr cfg)"

section \<open>The world outside the program\<close>

text \<open>
  The state that requests act on: the temporary files present on the local filesystem
  (path and the bytes the file holds on disk), and the calls made so far to the
  external collaborators, oldest first. A blob upload is recorded with the local
  path, the blob name and the bytes that the file held when it was read.
\<close>

record document =
  page_content :: string
  metadata :: "(string \<times> string) list"

record db_params =
  driver :: string
  host :: string
  port :: int
  database :: string
  user :: string
  password :: string

record vectorstore =
  connection_string :: db_params
  embedding_function :: string
  collection_name :: string

datatype event =
    TmpCreate string
  | BlobUpload string string string
  | LoaderLoad loader string
  | SplitDocuments "document list" nat nat
  | AddDocuments vectorstore "document list"
  | Unlink string
  | SimilaritySearch vectorstore string nat
  | GenerateContent string string

record world =
  tmpfiles :: "(string \<times> string) list"
  trace :: "event list"

definition exists_file :: "world \<Rightarrow> string \<Rightarrow> bool" where
  "exists_file w p = (p \<in> fst ` set (tmpfiles w))"

definition read_file :: "world \<Rightarrow> string \<Rightarrow> string" where
  "read_file w p = (case map_of (tmpfiles w) p of Some bytes \<Rightarrow> bytes | None \<Rightarrow> [])"

definition put_file :: "string \<Rightarrow> string \<Rightarrow> world \<Rightarrow> world" where
  "put_file p bytes w = w\<lparr>tmpfiles := (p, bytes) # filter (\<lambda>(q, _). q \<noteq> p) (tmpfiles w)\<rparr>"

definition emit :: "event \<Rightarrow> world \<Rightarrow> world" where
  "emit ev w = w\<lparr>trace := trace w @ [ev]\<rparr>"

text \<open>
  The external collaborators, which the program reaches only through library calls.
  Each is a parameter: given the world at the time of the call and the arguments of
  the call it either raises (the text of the exception) or returns. Nothing is assumed
  about them.
  \<^item> \<open>storage_Client\<close>, \<open>spacy_load\<close> (by attempt, the second one after the
  model has been downloaded): the set-up calls made when the module is imported;
  \<^item> \<open>py_int\<close>: \<open>int(s)\<close> for a string \<open>s\<close>;
  \<open>http_exception_str\<close>: \<open>str(e)\<close> for an \<open>HTTPException\<close>, which depends
  on the version of the web framework;
  \<^item> \<open>HuggingFaceEmbeddings\<close>, \<open>PGVector\<close>: the constructors called by
  \<open>initialize_vectorstore\<close>;
  \<^item> \<open>NamedTemporaryFile\<close> (the path of the file it created), \<open>tmp_write\<close>,
  \<open>uuid4\<close>; \<open>buffer_size\<close> is the size of the buffer of a file opened in
  binary mode;
  \<^item> \<open>upload_from_filename\<close>: bucket, blob name, local path; returns the blob's
  public URL;
  \<^item> \<open>loader_load\<close> (constructing the loader class on the path and calling
  \<open>load()\<close>), \<open>split_documents\<close> (constructing the splitter with chunk size and
  overlap and calling it), \<open>add_documents\<close>, \<open>similarity_search\<close>;
  \<^item> \<open>generate_content\<close>: API key, model name, prompt; returns the answer's text.
\<close>

record env =
  storage_Client :: "string option"
  spacy_load :: "nat \<Rightarrow> string option"
  py_int :: "string \<Rightarrow> string + int"
  http_exception_str :: "nat \<Rightarrow> string \<Rightarrow> string"
  HuggingFaceEmbeddings :: "world \<Rightarrow> string \<Rightarrow> string option"
  PGVector :: "world \<Rightarrow> db_params \<Rightarrow> string \<Rightarrow> string \<Rightarrow> string option"
  NamedTemporaryFile :: "world \<Rightarrow> string \<Rightarrow> string + string"
  tmp_write :: "world \<Rightarrow> string \<Rightarrow> string \<Rightarrow> string option"
  buffer_size :: nat
  uuid4 :: "world \<Rightarrow> string"
  upload_from_filename :: "world \<Rightarrow> string option \<Rightarrow> string \<Rightarrow> string \<Rightarrow> string + string"
  loader_load :: "world \<Rightarrow> loader \<Rightarrow> string \<Rightarrow> string + document list"
  split_documents :: "world \<Rightarrow> nat \<Rightarrow> nat \<Rightarrow> document list \<Rightarrow> string + document list"
  add_documents :: "world \<Rightarrow> vectorstore \<Rightarrow> document list \<Rightarrow> string option"
  similarity_search :: "world \<Rightarrow> vectorstore \<Rightarrow> string \<Rightarrow> nat \<Rightarrow> string + document list"
  generate_content :: "world \<Rightarrow> string option \<Rightarrow> string \<Rightarrow> string \<Rightarrow> string + string"

fun str_exn :: "env \<Rightarrow> exn \<Rightarrow> string" where
  "str_exn E (ValueError m) = m"
| "str_exn E (HTTPException status_code detail) = http_exception_str E status_code detail"
| "str_exn E (RequestValidationError field) = field"
| "str_exn E (Exception m) = m"

section \<open>Blob storage and the vector store handle\<close>

definition upload_to_gcs ::
  "env \<Rightarrow> config \<Rightarrow> string \<Rightarrow> string \<Rightarrow> world \<Rightarrow> (exn + string) \<times> world" where
  "upload_to_gcs E cfg file_path destination_blob_name w =
     (let w1 = emit (BlobUpload file_path destination_blob_name (read_file w file_path)) w
      in case upload_from_filename E w (BUCKET_NAME cfg) destination_blob_name file_path of
           Inl m \<Rightarrow> (Inl (Exception m), w1)
         | Inr public_url \<Rightarrow> (Inr public_url, w1))"

text \<open>
  \<open>initialize_vectorstore\<close> reads the five \<open>DB_*\<close> variables, each with its
  default. \<open>DB_PORT\<close> goes through \<open>int(...)\<close>, which raises \<open>ValueError\<close> on a
  string that is not a number; the default is already the integer 5432.
\<close>

definition initialize_vectorstore :: "env \<Rightarrow> environ \<Rightarrow> world \<Rightarrow> exn + vectorstore" where
  "initialize_vectorstore E environ w =
     (case HuggingFaceEmbeddings E w ''sentence-transformers/all-MiniLM-L6-v2'' of
        Some m \<Rightarrow> Inl (Exception m)
      | None \<Rightarrow>
         (case (case getenv_default environ ''DB_PORT'' (5432 :: int) of
                  Inl s \<Rightarrow> py_int E s
                | Inr d \<Rightarrow> Inr d) of
            Inl m \<Rightarrow> Inl (ValueError m)
          | Inr port_number \<Rightarrow>
             (let params = \<lparr>driver = ''psycopg2'',
                             host = (case getenv_default environ ''DB_HOST'' ''localhost'' of Inl v \<Rightarrow> v | Inr d \<Rightarrow> d),
                             port = port_number,
                             database = (case getenv_default environ ''DB_NAME'' ''vectordb'' of Inl v \<Rightarrow> v | Inr d \<Rightarrow> d),
                             user = (case getenv_default environ ''DB_USER'' ''postgres'' of Inl v \<Rightarrow> v | Inr d \<Rightarrow> d),
                             password = (case getenv_default environ ''DB_PASSWORD'' [] of Inl v \<Rightarrow> v | Inr d \<Rightarrow> d)\<rparr>
              in case PGVector E w params ''sentence-transformers/all-MiniLM-L6-v2'' ''document_vectors'' of
                   Some m \<Rightarrow> Inl (Exception m)
                 | None \<Rightarrow> Inr \<lparr>connection_string = params,
                                embedding_function = ''sentence-transformers/all-MiniLM-L6-v2'',
                                collection_name = ''document_vectors''\<rparr>)))"

section \<open>Ingestion\<close>

text \<open>
  The body of the \<open>try\<close> in \<open>process_file\<close>: pick the loader, load, split with
  chunk size 1000 and overlap 200, insert, and return the number of chunks.
\<close>

definition process_file_try :: "env \<Rightarrow> string \<Rightarrow> vectorstore \<Rightarrow> world \<Rightarrow> (exn + nat) \<times> world" where
  "process_file_try E file_path vs w =
     (case get_file_loader file_path of
        Inl e \<Rightarrow> (Inl e, w)
      | Inr LoaderClass \<Rightarrow>
         (let w1 = emit (LoaderLoad LoaderClass file_path) w
          in case loader_load E w LoaderClass file_path of
               Inl m \<Rightarrow> (Inl (Exception m), w1)
             | Inr documents \<Rightarrow>
                (let w2 = emit (SplitDocuments documents 1000 200) w1
                 in case split_documents E w1 1000 200 documents of
                      Inl m \<Rightarrow> (Inl (Exception m), w2)
                    | Inr docs \<Rightarrow>
                       (let w3 = emit (AddDocuments vs docs) w2
                        in case add_documents E w2 vs docs of
                             Some m \<Rightarrow> (Inl (Exception m), w3)
                           | None \<Rightarrow> (Inr (length docs), w3)))))"

definition process_file :: "env \<Rightarrow> string \<Rightarrow> vectorstore \<Rightarrow> world \<Rightarrow> (exn + nat) \<times> world" where
  "process_file E file_path vs w =
     (case process_file_try E file_path vs w of
        (Inl e, w') \<Rightarrow> (Inl (HTTPException 500 (''Error processing file: '' @ str_exn E e)), w')
      | (Inr n, w') \<Rightarrow> (Inr n, w'))"

text \<open>\<open>os.unlink\<close>: removes the file, or raises when there is none.\<close>

definition os_unlink :: "string \<Rightarrow> world \<Rightarrow> (exn + unit) \<times> world" where
  "os_unlink p w =
     (if exists_file w p
      then (Inr (), emit (Unlink p) (w\<lparr>tmpfiles := filter (\<lambda>(q, _). q \<noteq> p) (tmpfiles w)\<rparr>))
      else (Inl (Exception ''FileNotFoundError''), w))"

record uploadfile =
  filename :: string
  content :: string

record processed =
  pf_filename :: string
  chunks_created :: nat
  gcs_url :: string

record upload_response =
  status :: string
  processed_files :: "processed list"
  total_chunks :: nat

text \<open>
  The temporary file is written through a buffered handle that the code neither
  flushes nor closes before the file is used by name. \<open>write\<close> keeps bytes that fit
  into the buffer in memory and passes longer ones to the file at once, so
  \<open>written_through\<close> is what the file on disk holds after the \<open>write\<close>, and what
  the blob store and the loader find when they open it. Leaving the \<open>with\<close> block
  closes the handle: \<open>close_file\<close> flushes the bytes to the file if it is still
  there, and removes nothing, since the file was created with \<open>delete=False\<close>.
  When \<open>write\<close> itself raises, the bytes that reached the file are not modelled:
  the file is left as it was created.
\<close>

definition written_through :: "env \<Rightarrow> string \<Rightarrow> string" where
  "written_through E bytes = (if length bytes \<le> buffer_size E then [] else bytes)"

definition close_file :: "string \<Rightarrow> string \<Rightarrow> world \<Rightarrow> world" where
  "close_file p bytes w = (if exists_file w p then put_file p bytes w else w)"

text \<open>
  One iteration of the loop of \<open>upload_files\<close> for a file whose extension is
  supported: everything after the \<open>continue\<close>. The accumulators are
  \<open>total_chunks\<close> and \<open>processed_files\<close>. \<open>upload_written\<close> is the rest of the
  \<open>with\<close> block after the \<open>write\<close>; the only removal of the temporary file is
  the \<open>os.unlink\<close> at its end.

  An uploaded file is its name and its bytes; \<open>await file.read()\<close> yields the bytes.
  The filesystem is POSIX: a file that is open can be unlinked. \<open>except Exception\<close>
  catches every exception the model has.
\<close>

definition upload_written ::
  "env \<Rightarrow> config \<Rightarrow> vectorstore \<Rightarrow> uploadfile \<Rightarrow> string \<Rightarrow> nat \<times> processed list \<Rightarrow> world
     \<Rightarrow> (exn + nat \<times> processed list) \<times> world" where
  "upload_written E cfg vs file tmp_name acc w2 =
     (let gcs_path = ''documents/'' @ uuid4 E w2 @ ''/'' @ filename file
      in case upload_to_gcs E cfg tmp_name gcs_path w2 of
           (Inl e, w3) \<Rightarrow> (Inl e, w3)
         | (Inr url, w3) \<Rightarrow>
            (case process_file E tmp_name vs w3 of
               (Inl e, w4) \<Rightarrow> (Inl e, w4)
             | (Inr num_chunks, w4) \<Rightarrow>
                (case os_unlink tmp_name w4 of
                   (Inl e, w5) \<Rightarrow> (Inl e, w5)
                 | (Inr _, w5) \<Rightarrow>
                    (Inr (fst acc + num_chunks,
                          snd acc @ [\<lparr>pf_filename = filename file,
                                      chunks_created = num_chunks,
                                      gcs_url = url\<rparr>]), w5))))"

definition upload_one ::
  "env \<Rightarrow> config \<Rightarrow> vectorstore \<Rightarrow> uploadfile \<Rightarrow> string \<Rightarrow> nat \<times> processed list \<Rightarrow> world
     \<Rightarrow> (exn + nat \<times> processed list) \<times> world" where
  "upload_one E cfg vs file ext acc w =
     (case NamedTemporaryFile E w ext of
        Inl m \<Rightarrow> (Inl (Exception m), w)
      | Inr tmp_name \<Rightarrow>
         (let w1 = emit (TmpCreate tmp_name) (put_file tmp_name [] w)
          in case tmp_write E w1 tmp_name (content file) of
               Some m \<Rightarrow> (Inl (Exception m), w1)
             | None \<Rightarrow>
                (let w2 = put_file tmp_name (written_through E (content file)) w1
                 in case upload_written E cfg vs file tmp_name acc w2 of
                      (r, w') \<Rightarrow> (r, close_file tmp_name (content file) w'))))"

definition supported :: "uploadfile \<Rightarrow> bool" where
  "supported file = (map_of SUPPORTED_FORMATS (lower (snd (splitext (filename file)))) \<noteq> None)"

fun upload_loop ::
  "env \<Rightarrow> config \<Rightarrow> vectorstore \<Rightarrow> uploadfile list \<Rightarrow> nat \<times> processed list \<Rightarrow> world
     \<Rightarrow> (exn + nat \<times> processed list) \<times> world" where
  "upload_loop E cfg vs [] acc w = (Inr acc, w)"
| "upload_loop E cfg vs (file # files) acc w =
     (let ext = lower (snd (splitext (filename file)))
      in if map_of SUPPORTED_FORMATS ext = None then upload_loop E cfg vs files acc w
         else (case upload_one E cfg vs file ext acc w of
                 (Inl e, w') \<Rightarrow> (Inl e, w')
               | (Inr acc', w') \<Rightarrow> upload_loop E cfg vs files acc' w'))"

text \<open>
  \<open>upload_files\<close>: the store handle is built before the \<open>try\<close>, so an exception
  from there is not wrapped; every exception of the loop is caught once and raised
  again as an \<open>HTTPException\<close> with status 500.
\<close>

definition upload_files ::
  "env \<Rightarrow> environ \<Rightarrow> config \<Rightarrow> uploadfile list \<Rightarrow> world \<Rightarrow> (exn + upload_response) \<times> world" where
  "upload_files E environ cfg files w =
     (case initialize_vectorstore E environ w of
        Inl e \<Rightarrow> (Inl e, w)
      | Inr vs \<Rightarrow>
         (case upload_loop E cfg vs files (0, []) w of
            (Inl e, w') \<Rightarrow>
              (Inl (HTTPException 500 (''Error processing upload: '' @ str_exn E e)), w')
          | (Inr acc, w') \<Rightarrow>
              (Inr \<lparr>status = ''success'', processed_files = snd acc, total_chunks = fst acc\<rparr>, w')))"

section \<open>Question answering\<close>

record ask_response =
  question :: string
  answer :: string

definition ask_question_try ::
  "env \<Rightarrow> environ \<Rightarrow> config \<Rightarrow> string \<Rightarrow> world \<Rightarrow> (exn + ask_response) \<times> world" where
  "ask_question_try E environ cfg q w =
     (case initialize_vectorstore E environ w of
        Inl e \<Rightarrow> (Inl e, w)
      | Inr vs \<Rightarrow>
         (let w1 = emit (SimilaritySearch vs q 6) w
          in case similarity_search E w vs q 6 of
               Inl m \<Rightarrow> (Inl (Exception m), w1)
             | Inr results \<Rightarrow>
                (let context = join [newline] (map page_content results);
                     prompt = generate_rag_prompt q context;
                     w2 = emit (GenerateContent ''gemini-pro'' prompt) w1
                 in case generate_content E w1 (GEMINI_API_KEY cfg) ''gemini-pro'' prompt of
                      Inl m \<Rightarrow> (Inl (Exception m), w2)
                    | Inr text \<Rightarrow> (Inr \<lparr>question = q, answer = text\<rparr>, w2))))"

definition ask_question ::
  "env \<Rightarrow> environ \<Rightarrow> config \<Rightarrow> string \<Rightarrow> world \<Rightarrow> (exn + ask_response) \<times> world" where
  "ask_question E environ cfg q w =
     (case ask_question_try E environ cfg q w of
        (Inl e, w') \<Rightarrow>
          (Inl (HTTPException 500 (''Error processing question: '' @ str_exn E e)), w')
      | (Inr r, w') \<Rightarrow> (Inr r, w'))"

section \<open>The application: start-up, then requests\<close>

datatype request = Root | Upload "uploadfile list" | Ask string

datatype response =
    RootResponse string
  | UploadResponse upload_response
  | AskResponse ask_response

definition root :: string where
  "root = ''Enhanced RAG API is running''"

text \<open>
  The endpoints as the web framework serves them. \<open>upload_files\<close> declares its
  parameter as \<open>files: List[UploadFile] = File(...)\<close>, a required field: a request
  that carries no file is answered with a validation error (status 422) and the
  function is not called.
\<close>

definition handle :: "env \<Rightarrow> environ \<Rightarrow> config \<Rightarrow> request \<Rightarrow> world \<Rightarrow> (exn + response) \<times> world" where
  "handle E environ cfg req w =
     (case req of
        Root \<Rightarrow> (Inr (RootResponse root), w)
      | Upload files \<Rightarrow>
         (if files = [] then (Inl (RequestValidationError ''files''), w)
          else (case upload_files E environ cfg files w of
                  (Inl e, w') \<Rightarrow> (Inl e, w')
                | (Inr r, w') \<Rightarrow> (Inr (UploadResponse r), w')))
      | Ask q \<Rightarrow>
         (case ask_question E environ cfg q w of
            (Inl e, w') \<Rightarrow> (Inl e, w')
          | (Inr r, w') \<Rightarrow> (Inr (AskResponse r), w')))"

text \<open>
  The set-up that follows the configuration check when the module is imported: the
  storage client, and the language model, which is loaded again after a download
  when the first load raises.
\<close>

definition init_services :: "env \<Rightarrow> exn + unit" where
  "init_services E =
     (case storage_Client E of
        Some m \<Rightarrow> Inl (Exception m)
      | None \<Rightarrow>
         (case spacy_load E 0 of
            None \<Rightarrow> Inr ()
          | Some _ \<Rightarrow>
             (case spacy_load E 1 of
                None \<Rightarrow> Inr ()
              | Some m \<Rightarrow> Inl (Exception m))))"

definition startup :: "env \<Rightarrow> environ \<Rightarrow> exn + config" where
  "startup E environ =
     (case load_config environ of
        Inl e \<Rightarrow> Inl e
      | Inr cfg \<Rightarrow>
         (case init_services E of
            Inl e \<Rightarrow> Inl e
          | Inr _ \<Rightarrow> Inr cfg))"

text \<open>
  A run of the program on one request: the module is imported, and only then is the
  request handled. When the import raises, the process ends and the request never
  reaches a handler.
\<close>

definition serve :: "env \<Rightarrow> environ \<Rightarrow> request \<Rightarrow> world \<Rightarrow> (exn + response) \<times> world" where
  "serve E environ req w =
     (case startup E environ of
        Inl e \<Rightarrow> (Inl e, w)
      | Inr cfg \<Rightarrow> handle E environ cfg req w)"

text \<open>
  Two readings of the trace. \<open>step_of\<close> gives the step of the ingestion pipeline
  that a call belongs to, numbered as in the specification (2 temporary file, 3 blob
  store, 4 extraction, 5 splitting, 6 insertion; 7 is the removal of the temporary
  file, 0 a call of the query pipeline). \<open>is_search\<close> picks the similarity searches.
\<close>

fun step_of :: "event \<Rightarrow> nat" where
  "step_of (TmpCreate _) = 2"
| "step_of (BlobUpload _ _ _) = 3"
| "step_of (LoaderLoad _ _) = 4"
| "step_of (SplitDocuments _ _ _) = 5"
| "step_of (AddDocuments _ _) = 6"
| "step_of (Unlink _) = 7"
| "step_of (SimilaritySearch _ _ _) = 0"
| "step_of (GenerateContent _ _) = 0"

fun is_search :: "event \<Rightarrow> bool" where
  "is_search (SimilaritySearch _ _ _) = True"
| "is_search _ = False"

fun is_tmp_create :: "string \<Rightarrow> event \<Rightarrow> bool" where
  "is_tmp_create p (TmpCreate q) = (p = q)"
| "is_tmp_create p _ = False"

section \<open>Concrete environments\<close>

text \<open>
  Environments to run the model on concrete requests. In \<open>env_ok\<close> every
  collaborator returns: temporary files get a name that grows with the trace, the
  loader yields one document holding what the file holds on disk, the splitter cuts
  nothing, the store has no match for any question. Each of the others differs from
  it in one place, where a collaborator raises: creating the temporary file, writing
  it, the blob store, the loader, the splitter, the insertion into the vector store,
  the construction of the store handle, the similarity search, the generative model.
  In \<open>env_two_hits\<close> the store returns two chunks; in \<open>env_only_six\<close> it
  answers a search for six results as in \<open>env_ok\<close> and raises on any other.
\<close>

definition env_ok :: env where
  "env_ok =
     \<lparr>storage_Client = None,
      spacy_load = (\<lambda>attempt. None),
      py_int = (\<lambda>s. if s = ''5433'' then Inr 5433 else Inl (''invalid literal for int() with base 10: '' @ s)),
      http_exception_str = (\<lambda>status_code detail. detail),
      HuggingFaceEmbeddings = (\<lambda>w model_name. None),
      PGVector = (\<lambda>w params embedding collection. None),
      NamedTemporaryFile = (\<lambda>w suffix. Inr (''/tmp/tmp'' @ replicate (length (trace w)) CHR ''x'' @ suffix)),
      tmp_write = (\<lambda>w p bytes. None),
      buffer_size = 8192,
      uuid4 = (\<lambda>w. replicate (length (trace w)) CHR ''0''),
      upload_from_filename = (\<lambda>w bucket blob p. Inr (''https://storage.googleapis.com/'' @ blob)),
      loader_load = (\<lambda>w cls p. Inr [\<lparr>page_content = read_file w p, metadata = [(''source'', p)]\<rparr>]),
      split_documents = (\<lambda>w chunk_size chunk_overlap documents. Inr documents),
      add_documents = (\<lambda>w vs docs. None),
      similarity_search = (\<lambda>w vs q k. Inr []),
      generate_content = (\<lambda>w api_key model_name prompt. Inr ''I do not know.'')\<rparr>"

definition env_blob_down :: env where
  "env_blob_down = env_ok\<lparr>upload_from_filename := (\<lambda>w bucket blob p. Inl ''503 Service Unavailable'')\<rparr>"

definition env_tmp_denied :: env where
  "env_tmp_denied = env_ok\<lparr>NamedTemporaryFile := (\<lambda>w suffix. Inl ''[Errno 13] Permission denied'')\<rparr>"

definition env_disk_full :: env where
  "env_disk_full = env_ok\<lparr>tmp_write := (\<lambda>w p bytes. Some ''[Errno 28] No space left on device'')\<rparr>"

definition env_loader_fails :: env where
  "env_loader_fails = env_ok\<lparr>loader_load := (\<lambda>w cls p. Inl ''cannot decode'')\<rparr>"

definition env_splitter_fails :: env where
  "env_splitter_fails =
     env_ok\<lparr>split_documents := (\<lambda>w chunk_size chunk_overlap documents. Inl ''no pipeline'')\<rparr>"

definition env_insert_fails :: env where
  "env_insert_fails = env_ok\<lparr>add_documents := (\<lambda>w vs docs. Some ''connection lost'')\<rparr>"

definition env_store_down :: env where
  "env_store_down = env_ok\<lparr>PGVector := (\<lambda>w params embedding collection. Some ''connection refused'')\<rparr>"

definition env_search_fails :: env where
  "env_search_fails = env_ok\<lparr>similarity_search := (\<lambda>w vs q k. Inl ''relation does not exist'')\<rparr>"

definition env_two_hits :: env where
  "env_two_hits =
     env_ok\<lparr>similarity_search :=
       (\<lambda>w vs q k. Inr [\<lparr>page_content = ''X is a letter.'', metadata = []\<rparr>,
                        \<lparr>page_content = ''It comes before Y.'', metadata = []\<rparr>])\<rparr>"

definition env_only_six :: env where
  "env_only_six =
     env_ok\<lparr>similarity_search :=
       (\<lambda>w vs q k. if k = 6 then Inr [] else Inl ''no such query'')\<rparr>"

definition env_quota :: env where
  "env_quota = env_ok\<lparr>generate_content := (\<lambda>w api_key model_name prompt. Inl ''quota exceeded'')\<rparr>"

definition environ_ok :: environ where
  "environ_ok =
     [''GEMINI_API_KEY'' \<mapsto> ''key'', ''GCS_BUCKET_NAME'' \<mapsto> ''bucket'',
      ''DATABASE_URL'' \<mapsto> ''postgresql://db'']"

definition config_ok :: config where
  "config_ok = \<lparr>GEMINI_API_KEY = Some ''key'', BUCKET_NAME = Some ''bucket'',
                  DB_CONNECTION = Some ''postgresql://db''\<rparr>"

definition vectorstore_ok :: vectorstore where
  "vectorstore_ok =
     \<lparr>connection_string =
        \<lparr>driver = ''psycopg2'', host = ''localhost'', port = 5432, database = ''vectordb'',
         user = ''postgres'', password = []\<rparr>,
      embedding_function = ''sentence-transformers/all-MiniLM-L6-v2'',
      collection_name = ''document_vectors''\<rparr>"

definition world0 :: world where
  "world0 = \<lparr>tmpfiles = [], trace = []\<rparr>"

section \<open>Running the model on concrete requests\<close>

lemmas world_simps =
  exists_file_def read_file_def put_file_def emit_def close_file_def written_through_def
  world0_def config_ok_def vectorstore_ok_def env_ok_def
  get_file_loader_def splitext_def skip_leading_dots.simps
  lower_def lower_char_def ascii_uppercase_def ascii_lowercase_def SUPPORTED_FORMATS_def
  supported_def Let_def

lemmas run_simps =
  upload_files_def upload_one_def upload_written_def
  upload_to_gcs_def process_file_def process_file_try_def os_unlink_def
  initialize_vectorstore_def getenv_default_def getenv_def environ_ok_def world_simps

lemma init_ok: "initialize_vectorstore env_ok environ_ok world0 = Inr vectorstore_ok"
  by (simp add: run_simps)

lemma init_other:
  "initialize_vectorstore env_tmp_denied environ_ok world0 = Inr vectorstore_ok"
  "initialize_vectorstore env_disk_full environ_ok world0 = Inr vectorstore_ok"
  "initialize_vectorstore env_blob_down environ_ok world0 = Inr vectorstore_ok"
  "initialize_vectorstore env_loader_fails environ_ok world0 = Inr vectorstore_ok"
  "initialize_vectorstore env_splitter_fails environ_ok world0 = Inr vectorstore_ok"
  "initialize_vectorstore env_insert_fails environ_ok world0 = Inr vectorstore_ok"
  "initialize_vectorstore env_search_fails environ_ok world0 = Inr vectorstore_ok"
  "initialize_vectorstore env_two_hits environ_ok world0 = Inr vectorstore_ok"
  by (simp_all add: run_simps env_tmp_denied_def env_disk_full_def env_blob_down_def
      env_loader_fails_def env_splitter_fails_def env_insert_fails_def env_search_fails_def
      env_two_hits_def)

lemma init_store_down:
  "initialize_vectorstore env_store_down environ_ok world0 = Inl (Exception ''connection refused'')"
  by (simp add: run_simps env_store_down_def)


section \<open>Properties of prompt assembly\<close>

lemma replace_delete: "replace s c [] = filter (\<lambda>x. x \<noteq> c) s"
  by (induction s) auto

lemma replace_single: "replace s c [d] = map (\<lambda>x. if x = c then d else x) s"
  by (induction s) auto

lemma escape_context_eq:
  "escape_context context =
     map (\<lambda>x. if x = newline then CHR '' '' else x)
       (filter (\<lambda>x. x \<noteq> squote \<and> x \<noteq> dquote) context)"
  by (simp add: escape_context_def replace_delete replace_single conj_commute)

lemma escape_context_free:
  "squote \<notin> set (escape_context c) \<and> dquote \<notin> set (escape_context c)
   \<and> newline \<notin> set (escape_context c)"
  by (auto simp: escape_context_eq squote_def dquote_def newline_def)

lemma prompt_shape:
  "\<exists>pre post. \<forall>q c. generate_rag_prompt q c =
       pre @ ''    QUESTION: '' @ [squote] @ q @ [squote, newline]
           @ ''    CONTEXT: '' @ [squote] @ escape_context c @ [squote, newline] @ post"
proof -
  let ?pre = "[newline]
       @ ''    You are a helpful and informative assistant that answers questions using the provided reference context.'' @ [newline]
       @ ''    Provide comprehensive answers while maintaining a conversational tone for non-technical audiences.'' @ [newline]
       @ ''    Break down complex concepts into simpler terms.'' @ [newline]
       @ ''    If the context doesn'' @ [squote] @ ''t contain relevant information, acknowledge that and provide a general response.'' @ [newline]
       @ ''    '' @ [newline]"
  let ?post = "''    '' @ [newline] @ ''    ANSWER:'' @ [newline] @ ''    ''"
  have "\<forall>q c. generate_rag_prompt q c =
       ?pre @ ''    QUESTION: '' @ [squote] @ q @ [squote, newline]
           @ ''    CONTEXT: '' @ [squote] @ escape_context c @ [squote, newline] @ ?post"
    by (simp add: generate_rag_prompt_def)
  then show ?thesis by blast
qed

text \<open>
  C3. The context is sanitised before it is put into the template: the three
  \<open>replace\<close> calls delete every single quote and every double quote and turn every
  newline into a space, so none of the three characters is left. For the context
  \<open>He said "hi"\nBye'\<close> the fragment is \<open>He said hi Bye\<close>. The template is fixed
  and the question goes into it unchanged, between the quotes after \<open>QUESTION:\<close>.
\<close>

theorem generate_rag_prompt_sanitizes:
  "squote \<notin> set (escape_context c) \<and> dquote \<notin> set (escape_context c)
   \<and> newline \<notin> set (escape_context c)
   \<and> escape_context c =
       map (\<lambda>x. if x = newline then CHR '' '' else x)
         (filter (\<lambda>x. x \<noteq> squote \<and> x \<noteq> dquote) c)
   \<and> escape_context (''He said '' @ [dquote] @ ''hi'' @ [dquote, newline] @ ''Bye'' @ [squote])
       = ''He said hi Bye''
   \<and> (\<exists>pre post. \<forall>q c'. generate_rag_prompt q c' =
         pre @ ''    QUESTION: '' @ [squote] @ q @ [squote, newline]
             @ ''    CONTEXT: '' @ [squote] @ escape_context c' @ [squote, newline] @ post)"
proof -
  have ex: "escape_context (''He said '' @ [dquote] @ ''hi'' @ [dquote, newline] @ ''Bye'' @ [squote])
       = ''He said hi Bye''"
    by (simp add: escape_context_def squote_def dquote_def newline_def)
  show ?thesis
    using escape_context_free [of c] escape_context_eq [of c] ex prompt_shape by blast
qed

section \<open>Properties of the format dispatcher\<close>

lemma supported_ext_iff:
  "map_of SUPPORTED_FORMATS ext \<noteq> None \<longleftrightarrow>
     ext \<in> {''.pdf'', ''.docx'', ''.doc'', ''.pptx'', ''.ppt'', ''.csv'', ''.json'', ''.txt''}"
  by (simp add: SUPPORTED_FORMATS_def)

lemma rfind_absent: "c \<notin> set xs \<Longrightarrow> rfind xs c = - 1"
  by (induction xs) (auto simp: Let_def)

lemma rfind_append_absent: "c \<notin> set ys \<Longrightarrow> rfind (xs @ ys) c = rfind xs c"
  by (induction xs) (auto simp: Let_def rfind_absent)

lemma rfind_last_occurrence: "c \<notin> set ys \<Longrightarrow> rfind (xs @ c # ys) c = int (length xs)"
  by (induction xs) (auto simp: Let_def rfind_absent)

lemma rfind_snoc: "rfind (xs @ [c]) c = int (length xs)"
  using rfind_last_occurrence [of c "[]" xs] by simp

text \<open>The loop of \<open>splitext\<close> looks for a character other than a dot in the range.\<close>

lemma skip_leading_dots_iff:
  "skip_leading_dots p i j \<longleftrightarrow> (\<exists>k. i \<le> k \<and> k < j \<and> p ! k \<noteq> CHR ''.'')"
proof (induction p i j rule: skip_leading_dots.induct)
  case (1 p i j)
  show ?case
  proof (cases "i < j")
    case False
    then show ?thesis by (subst skip_leading_dots.simps) auto
  next
    case True
    show ?thesis
    proof (cases "p ! i \<noteq> CHR ''.''")
      case True
      with \<open>i < j\<close> show ?thesis by (subst skip_leading_dots.simps) auto
    next
      case False
      with \<open>i < j\<close> have "skip_leading_dots p i j = skip_leading_dots p (Suc i) j"
        by (subst skip_leading_dots.simps) simp
      also have "\<dots> \<longleftrightarrow> (\<exists>k. Suc i \<le> k \<and> k < j \<and> p ! k \<noteq> CHR ''.'')"
        using "1.IH" \<open>i < j\<close> False by simp
      also have "\<dots> \<longleftrightarrow> (\<exists>k. i \<le> k \<and> k < j \<and> p ! k \<noteq> CHR ''.'')"
        using False by (metis Suc_leD Suc_leI le_neq_implies_less)
      finally show ?thesis .
    qed
  qed
qed

text \<open>
  A path \<open>dir/base.e\<close>, where \<open>base\<close> is not made of dots only and \<open>e\<close> has
  neither a dot nor a slash, is split before its last dot.
\<close>

lemma splitext_stem_ext:
  assumes e: "CHR ''.'' \<notin> set e" "CHR ''/'' \<notin> set e"
    and base: "CHR ''/'' \<notin> set base" "\<exists>c \<in> set base. c \<noteq> CHR ''.''"
    and dir: "dir = [] \<or> last dir = CHR ''/''"
  shows "splitext (dir @ base @ CHR ''.'' # e) = (dir @ base, CHR ''.'' # e)"
proof -
  let ?p = "dir @ base @ CHR ''.'' # e"
  have dot: "rfind ?p CHR ''.'' = int (length dir + length base)"
    using rfind_last_occurrence [OF e(1), of "dir @ base"] by simp
  have "CHR ''/'' \<notin> set (base @ CHR ''.'' # e)" using e base by simp
  then have "rfind ?p CHR ''/'' = rfind dir CHR ''/''"
    by (rule rfind_append_absent)
  also have "\<dots> = int (length dir) - 1"
  proof (cases "dir = []")
    case True then show ?thesis by simp
  next
    case False
    with dir obtain d where "dir = d @ [CHR ''/'']"
      by (metis append_butlast_last_id)
    then show ?thesis by (simp add: rfind_snoc)
  qed
  finally have sep: "rfind ?p CHR ''/'' = int (length dir) - 1" .
  from base(2) obtain k where k: "k < length base" "base ! k \<noteq> CHR ''.''"
    by (auto simp: in_set_conv_nth)
  then have "?p ! (length dir + k) \<noteq> CHR ''.''"
    by (simp add: nth_append)
  with k(1) have "skip_leading_dots ?p (length dir) (length dir + length base)"
    unfolding skip_leading_dots_iff by (intro exI [of _ "length dir + k"]) simp
  moreover have "nat (int (length dir) - 1 + 1) = length dir" by simp
  moreover have "int (length dir) - 1 < int (length dir + length base)" using k(1) by simp
  ultimately show ?thesis
    unfolding splitext_def dot sep Let_def by (simp del: of_nat_add)
qed

section \<open>Properties of the upload loop\<close>

lemma upload_loop_append:
  "upload_loop E cfg vs (xs @ ys) acc w =
     (case upload_loop E cfg vs xs acc w of
        (Inl e, w') \<Rightarrow> (Inl e, w')
      | (Inr acc', w') \<Rightarrow> upload_loop E cfg vs ys acc' w')"
  by (induction xs arbitrary: acc w) (auto simp: Let_def split: prod.splits sum.splits)

lemma upload_loop_skip:
  "\<not> supported f \<Longrightarrow> upload_loop E cfg vs (f # fs) acc w = upload_loop E cfg vs fs acc w"
  by (simp add: supported_def Let_def)

lemma upload_loop_filter:
  "upload_loop E cfg vs files acc w = upload_loop E cfg vs (filter supported files) acc w"
  by (induction files arbitrary: acc w)
    (auto simp: Let_def supported_def split: prod.splits sum.splits)

text \<open>
  C5. A path whose extension, lower-cased, is one of the eight supported ones gets a
  loader from \<open>get_file_loader\<close>; this is stated for the extension as the code
  computes it, and for every path of the form \<open>dir/base.e\<close>. A file with any
  other extension is passed over by the upload loop: the request goes on as if the
  file had not been sent, with the same result and the same effects.
\<close>

theorem dispatcher_and_skip:
  "(lower (snd (splitext p)) \<in>
       {''.pdf'', ''.docx'', ''.doc'', ''.pptx'', ''.ppt'', ''.csv'', ''.json'', ''.txt''}
     \<longrightarrow> (\<exists>l. get_file_loader p = Inr l))
   \<and> (CHR ''.'' \<notin> set e \<and> CHR ''/'' \<notin> set e \<and> CHR ''/'' \<notin> set base
       \<and> (\<exists>c \<in> set base. c \<noteq> CHR ''.'') \<and> (dir = [] \<or> last dir = CHR ''/'')
       \<and> lower e \<in> {''pdf'', ''docx'', ''doc'', ''pptx'', ''ppt'', ''csv'', ''json'', ''txt''}
     \<longrightarrow> (\<exists>l. get_file_loader (dir @ base @ ''.'' @ e) = Inr l))
   \<and> (lower (snd (splitext (filename f))) \<notin>
       {''.pdf'', ''.docx'', ''.doc'', ''.pptx'', ''.ppt'', ''.csv'', ''.json'', ''.txt''}
     \<longrightarrow> upload_loop E cfg vs (f # fs) acc w = upload_loop E cfg vs fs acc w
       \<and> upload_files E environ cfg (pre @ f # fs) w = upload_files E environ cfg (pre @ fs) w)"
proof -
  let ?exts = "{''.pdf'', ''.docx'', ''.doc'', ''.pptx'', ''.ppt'', ''.csv'', ''.json'', ''.txt''}"
  have a: "lower (snd (splitext p)) \<in> ?exts \<longrightarrow> (\<exists>l. get_file_loader p = Inr l)"
    using supported_ext_iff [of "lower (snd (splitext p))"]
    by (auto simp: get_file_loader_def Let_def simp del: insert_iff)
  have b: "\<exists>l. get_file_loader (dir @ base @ ''.'' @ e) = Inr l"
    if "CHR ''.'' \<notin> set e" "CHR ''/'' \<notin> set e" "CHR ''/'' \<notin> set base"
      "\<exists>c \<in> set base. c \<noteq> CHR ''.''" "dir = [] \<or> last dir = CHR ''/''"
      "lower e \<in> {''pdf'', ''docx'', ''doc'', ''pptx'', ''ppt'', ''csv'', ''json'', ''txt''}"
  proof -
    have "splitext (dir @ base @ CHR ''.'' # e) = (dir @ base, CHR ''.'' # e)"
      using that(1-5) by (rule splitext_stem_ext)
    moreover have "lower (CHR ''.'' # e) = CHR ''.'' # lower e"
      by (simp add: lower_def lower_char_def ascii_uppercase_def ascii_lowercase_def)
    ultimately have "lower (snd (splitext (dir @ base @ ''.'' @ e))) \<in> ?exts"
      using that(6) by simp
    then show ?thesis
      using supported_ext_iff [of "lower (snd (splitext (dir @ base @ ''.'' @ e)))"]
      by (auto simp: get_file_loader_def Let_def simp del: insert_iff)
  qed
  have c: "upload_loop E cfg vs (f # fs) acc w = upload_loop E cfg vs fs acc w
       \<and> upload_files E environ cfg (pre @ f # fs) w = upload_files E environ cfg (pre @ fs) w"
    if "lower (snd (splitext (filename f))) \<notin> ?exts"
  proof -
    from that have ns: "\<not> supported f"
      using supported_ext_iff [of "lower (snd (splitext (filename f)))"]
      by (simp add: supported_def del: insert_iff)
    have skip: "\<And>vs'. upload_loop E cfg vs' (f # fs) = upload_loop E cfg vs' fs"
      by (intro ext) (rule upload_loop_skip [OF ns])
    have app: "\<And>vs'. upload_loop E cfg vs' (pre @ f # fs) (0, []) w
        = upload_loop E cfg vs' (pre @ fs) (0, []) w"
      unfolding upload_loop_append skip ..
    have "upload_files E environ cfg (pre @ f # fs) w = upload_files E environ cfg (pre @ fs) w"
      unfolding upload_files_def app ..
    then show ?thesis
      using upload_loop_skip [OF ns] by blast
  qed
  from a b c show ?thesis by blast
qed

text \<open>
  C5 at concrete inputs: \<open>Report.PDF\<close> and \<open>/srv/in/slides.PpTx\<close> get a loader;
  \<open>virus.exe\<close>, sent between two supported files, changes nothing in the request.
\<close>

theorem dispatcher_and_skip_witness:
  "lower (snd (splitext ''Report.PDF'')) \<in>
       {''.pdf'', ''.docx'', ''.doc'', ''.pptx'', ''.ppt'', ''.csv'', ''.json'', ''.txt''}
   \<and> (\<exists>l. get_file_loader ''Report.PDF'' = Inr l)
   \<and> (\<exists>l. get_file_loader (''/srv/in/'' @ ''slides'' @ ''.'' @ ''PpTx'') = Inr l)
   \<and> lower (snd (splitext (filename \<lparr>filename = ''virus.exe'', content = ''MZ''\<rparr>))) \<notin>
       {''.pdf'', ''.docx'', ''.doc'', ''.pptx'', ''.ppt'', ''.csv'', ''.json'', ''.txt''}
   \<and> upload_files env_ok environ_ok config_ok
         ([\<lparr>filename = ''notes.txt'', content = ''hello''\<rparr>]
            @ \<lparr>filename = ''virus.exe'', content = ''MZ''\<rparr>
            # [\<lparr>filename = ''Report.PDF'', content = ''pdf''\<rparr>]) world0
       = upload_files env_ok environ_ok config_ok
         ([\<lparr>filename = ''notes.txt'', content = ''hello''\<rparr>]
            @ [\<lparr>filename = ''Report.PDF'', content = ''pdf''\<rparr>]) world0"
proof -
  have h1: "lower (snd (splitext ''Report.PDF'')) \<in>
       {''.pdf'', ''.docx'', ''.doc'', ''.pptx'', ''.ppt'', ''.csv'', ''.json'', ''.txt''}"
    by (simp add: run_simps)
  have h2: "CHR ''.'' \<notin> set ''PpTx'' \<and> CHR ''/'' \<notin> set ''PpTx'' \<and> CHR ''/'' \<notin> set ''slides''
       \<and> (\<exists>c \<in> set ''slides''. c \<noteq> CHR ''.'') \<and> (''/srv/in/'' = [] \<or> last ''/srv/in/'' = CHR ''/'')
       \<and> lower ''PpTx'' \<in> {''pdf'', ''docx'', ''doc'', ''pptx'', ''ppt'', ''csv'', ''json'', ''txt''}"
    by (simp add: lower_def lower_char_def ascii_uppercase_def ascii_lowercase_def)
  have h3: "lower (snd (splitext (filename \<lparr>filename = ''virus.exe'', content = ''MZ''\<rparr>))) \<notin>
       {''.pdf'', ''.docx'', ''.doc'', ''.pptx'', ''.ppt'', ''.csv'', ''.json'', ''.txt''}"
    by (simp add: run_simps)
  from dispatcher_and_skip [where p = "''Report.PDF''" and e = "''PpTx''" and base = "''slides''"
      and dir = "''/srv/in/''" and f = "\<lparr>filename = ''virus.exe'', content = ''MZ''\<rparr>"
      and E = env_ok and cfg = config_ok and environ = environ_ok and w = world0
      and fs = "[\<lparr>filename = ''Report.PDF'', content = ''pdf''\<rparr>]"
      and pre = "[\<lparr>filename = ''notes.txt'', content = ''hello''\<rparr>]"] h1 h2 h3
  show ?thesis by blast
qed

section \<open>One iteration: its calls and its temporary file\<close>

lemma trace_close_file: "trace (close_file p b w) = trace w"
  by (simp add: close_file_def put_file_def)

lemma exists_close_file: "exists_file (close_file p b w) q \<longleftrightarrow> exists_file w q"
  by (auto simp: close_file_def put_file_def exists_file_def)

lemma close_file_absent: "\<not> exists_file w p \<Longrightarrow> close_file p b w = w"
  by (simp add: close_file_def)

lemma exists_put_file: "exists_file (put_file p b w) q \<longleftrightarrow> q = p \<or> exists_file w q"
  by (auto simp: exists_file_def put_file_def)

lemma exists_emit: "exists_file (emit ev w) q \<longleftrightarrow> exists_file w q"
  by (simp add: exists_file_def emit_def)

lemma upload_to_gcs_world:
  "upload_to_gcs E cfg p b w = (r, w') \<Longrightarrow>
     \<exists>c. w' = emit (BlobUpload p b c) w"
  by (auto simp: upload_to_gcs_def Let_def split: sum.splits)

lemma process_file_world:
  assumes "process_file E p vs w = (r, w')"
  shows "tmpfiles w' = tmpfiles w
     \<and> (\<exists>evs. trace w' = trace w @ evs \<and> prefix (map step_of evs) [4, 5, 6])"
  using assms
  by (auto simp: process_file_def process_file_try_def Let_def emit_def
      split: sum.splits option.splits prod.splits)

lemma os_unlink_world:
  assumes "os_unlink p w = (r, w')"
  shows "(\<forall>e. r = Inl e \<longrightarrow> w' = w \<and> \<not> exists_file w p)
     \<and> (\<forall>u. r = Inr u \<longrightarrow> tmpfiles w' = filter (\<lambda>(q, _). q \<noteq> p) (tmpfiles w)
            \<and> trace w' = trace w @ [Unlink p])"
  using assms by (auto simp: os_unlink_def emit_def split: if_splits)

text \<open>
  The rest of the \<open>with\<close> block after the \<open>write\<close>: the calls it makes are a
  prefix of blob upload, load, split, insert, unlink, each made once; when it fails the
  files are as before, and when it succeeds the temporary file is gone.
\<close>

lemma upload_written_world:
  assumes "upload_written E cfg vs f t acc w2 = (r, w')"
  shows "\<exists>evs. trace w' = trace w2 @ evs
      \<and> prefix (map step_of evs) [3, 4, 5, 6, 7]
      \<and> (\<forall>e. r = Inl e \<longrightarrow> prefix (map step_of evs) [3, 4, 5, 6] \<and> tmpfiles w' = tmpfiles w2)
      \<and> (\<forall>a. r = Inr a \<longrightarrow> tmpfiles w' = filter (\<lambda>(q, _). q \<noteq> t) (tmpfiles w2))"
proof -
  let ?blob = "''documents/'' @ uuid4 E w2 @ ''/'' @ filename f"
  obtain r3 w3 where g: "upload_to_gcs E cfg t ?blob w2 = (r3, w3)" by force
  from upload_to_gcs_world [OF g] obtain c where w3: "w3 = emit (BlobUpload t ?blob c) w2"
    by blast
  show ?thesis
  proof (cases r3)
    case (Inl e)
    with assms g have "r = Inl e" "w' = w3"
      by (simp_all add: upload_written_def Let_def)
    with w3 show ?thesis
      by (intro exI [of _ "[BlobUpload t ?blob c]"]) (simp add: emit_def)
  next
    case (Inr url)
    obtain r4 w4 where p: "process_file E t vs w3 = (r4, w4)" by force
    from process_file_world [OF p] obtain evs4 where
      w4: "tmpfiles w4 = tmpfiles w3" "trace w4 = trace w3 @ evs4"
        "prefix (map step_of evs4) [4, 5, 6]"
      by blast
    have "prefix [4, 5, 6] [4, 5, 6, 7::nat]" by simp
    with w4(3) have w47: "prefix (map step_of evs4) [4, 5, 6, 7]"
      by (rule prefix_order.trans)
    show ?thesis
    proof (cases r4)
      case (Inl e)
      with assms g Inr p have "r = Inl e" "w' = w4"
        by (simp_all add: upload_written_def Let_def)
      with w3 w4 w47 show ?thesis
        by (intro exI [of _ "BlobUpload t ?blob c # evs4"]) (simp add: emit_def)
    next
      case n: (Inr n)
      obtain r5 w5 where u: "os_unlink t w4 = (r5, w5)" by force
      show ?thesis
      proof (cases r5)
        case (Inl e)
        with os_unlink_world [OF u] have "w5 = w4" by simp
        moreover from assms g Inr p n u Inl have "r = Inl e" "w' = w5"
          by (simp_all add: upload_written_def Let_def)
        ultimately show ?thesis using w3 w4 w47
          by (intro exI [of _ "BlobUpload t ?blob c # evs4"]) (simp add: emit_def)
      next
        case un: (Inr x)
        from assms g Inr p n u un have rw: "\<exists>a. r = Inr a" "w' = w5"
          by (auto simp: upload_written_def Let_def)
        from p n have full: "map step_of evs4 = [4, 5, 6]"
          using w4(2) w3
          by (auto simp: process_file_def process_file_try_def Let_def emit_def
              split: sum.splits option.splits prod.splits)
        from os_unlink_world [OF u] un have
          w5: "tmpfiles w5 = filter (\<lambda>(q, _). q \<noteq> t) (tmpfiles w4)" "trace w5 = trace w4 @ [Unlink t]"
          by simp_all
        show ?thesis using rw w3 w4 w5 full
          by (intro exI [of _ "BlobUpload t ?blob c # evs4 @ [Unlink t]"]) (auto simp: emit_def)
      qed
    qed
  qed
qed

text \<open>
  The three ways through an iteration: the temporary file cannot be created, it cannot
  be written, or the rest of the \<open>with\<close> block runs and the handle is closed.
\<close>

lemma upload_one_cases:
  assumes "upload_one E cfg vs f ext acc w = (r, w')"
  obtains (create_fails) m where "NamedTemporaryFile E w ext = Inl m" "r = Inl (Exception m)" "w' = w"
  | (write_fails) t m where "NamedTemporaryFile E w ext = Inr t"
      "tmp_write E (emit (TmpCreate t) (put_file t [] w)) t (content f) = Some m"
      "r = Inl (Exception m)" "w' = emit (TmpCreate t) (put_file t [] w)"
  | (written) t w'' where "NamedTemporaryFile E w ext = Inr t"
      "tmp_write E (emit (TmpCreate t) (put_file t [] w)) t (content f) = None"
      "upload_written E cfg vs f t acc
         (put_file t (written_through E (content f)) (emit (TmpCreate t) (put_file t [] w))) = (r, w'')"
      "w' = close_file t (content f) w''"
  using assms
  by (auto simp: upload_one_def Let_def split: sum.splits option.splits prod.splits)


lemma upload_one_tmp_create:
  assumes "upload_one E cfg vs f ext acc w = (r, w')"
  shows "\<exists>evs. trace w' = trace w @ evs
           \<and> (\<forall>p. list_ex (is_tmp_create p) evs \<longrightarrow> NamedTemporaryFile E w ext = Inr p)"
  using assms
proof (cases rule: upload_one_cases)
  case (create_fails m)
  then show ?thesis by simp
next
  case (write_fails t m)
  then show ?thesis
    by (intro exI [of _ "[TmpCreate t]"]) (simp add: emit_def put_file_def)
next
  case (written t w'')
  from upload_written_world [OF written(3)] obtain evs where
    evs: "trace w'' = trace w @ TmpCreate t # evs" "prefix (map step_of evs) [3, 4, 5, 6, 7]"
    by (auto simp: emit_def put_file_def)
  have "\<not> is_tmp_create p ev" if "ev \<in> set evs" for p ev
  proof -
    from evs(2) have "set (map step_of evs) \<subseteq> set [3, 4, 5, 6, 7]"
      by (rule set_mono_prefix)
    with that have "step_of ev \<in> {3, 4, 5, 6, 7}" by auto
    then show ?thesis by (cases ev) auto
  qed
  then have "list_ex (is_tmp_create p) (TmpCreate t # evs) \<longrightarrow> p = t" for p
    by (auto simp: list_ex_iff)
  with written(1,4) evs(1) show ?thesis
    by (intro exI [of _ "TmpCreate t # evs"]) (simp add: trace_close_file)
qed

lemma upload_one_failure_keeps_tmpfile:
  assumes "NamedTemporaryFile E w ext = Inr t"
    and "upload_one E cfg vs f ext acc w = (Inl e, w')"
  shows "exists_file w' t"
  using assms(2)
proof (cases rule: upload_one_cases)
  case (create_fails m)
  with assms(1) show ?thesis by simp
next
  case (write_fails t' m)
  with assms(1) show ?thesis by (simp add: exists_emit exists_put_file)
next
  case (written t' w'')
  with assms(1) have t: "t' = t" by simp
  from upload_written_world [OF written(3)] have
    "tmpfiles w'' = tmpfiles (put_file t' (written_through E (content f))
        (emit (TmpCreate t') (put_file t' [] w)))"
    by auto
  then have "exists_file w'' t'"
    by (simp add: exists_file_def put_file_def)
  with written(4) t show ?thesis by (simp add: exists_close_file)
qed

lemma upload_one_failure_flushes_tmpfile:
  assumes "NamedTemporaryFile E w ext = Inr t"
    and "tmp_write E (emit (TmpCreate t) (put_file t [] w)) t (content f) = None"
    and "upload_one E cfg vs f ext acc w = (Inl e, w')"
  shows "map_of (tmpfiles w') t = Some (content f)"
  using assms(3)
proof (cases rule: upload_one_cases)
  case (create_fails m)
  with assms(1) show ?thesis by simp
next
  case (write_fails t' m)
  with assms(1,2) show ?thesis by simp
next
  case (written t' w'')
  with assms(1) have t: "t' = t" by simp
  from upload_written_world [OF written(3)] have
    "tmpfiles w'' = tmpfiles (put_file t' (written_through E (content f))
        (emit (TmpCreate t') (put_file t' [] w)))"
    by auto
  then have "exists_file w'' t'"
    by (simp add: exists_file_def put_file_def)
  with written(4) t show ?thesis by (simp add: close_file_def put_file_def)
qed

lemma upload_one_success_removes_tmpfile:
  assumes "NamedTemporaryFile E w ext = Inr t"
    and "upload_one E cfg vs f ext acc w = (Inr acc', w')"
  shows "\<not> exists_file w' t \<and> tmpfiles w' = filter (\<lambda>(q, _). q \<noteq> t) (tmpfiles w)"
  using assms(2)
proof (cases rule: upload_one_cases)
  case (create_fails m)
  then show ?thesis by simp
next
  case (write_fails t' m)
  then show ?thesis by simp
next
  case (written t' w'')
  with assms(1) have t: "t' = t" by simp
  from upload_written_world [OF written(3)] have
    "tmpfiles w'' = filter (\<lambda>(q, _). q \<noteq> t') (tmpfiles (put_file t' (written_through E (content f))
        (emit (TmpCreate t') (put_file t' [] w))))"
    by auto
  then have gone: "tmpfiles w'' = filter (\<lambda>(q, _). q \<noteq> t) (tmpfiles w)"
    using t by (simp add: put_file_def emit_def split_def)
  then have "\<not> exists_file w'' t" by (auto simp: exists_file_def)
  with written(4) t gone show ?thesis by (simp add: close_file_absent)
qed

lemma upload_one_success:
  assumes "upload_one E cfg vs f ext acc w = (Inr acc', w')"
  shows "\<exists>n url. acc' = (fst acc + n,
           snd acc @ [\<lparr>pf_filename = filename f, chunks_created = n, gcs_url = url\<rparr>])"
  using assms
proof (cases rule: upload_one_cases)
  case (written t w'')
  then show ?thesis
    by (auto simp: upload_written_def Let_def split: sum.splits prod.splits)
qed simp_all

section \<open>Properties of the batch upload\<close>

lemma upload_loop_success:
  "upload_loop E cfg vs files acc w = (Inr acc', w') \<Longrightarrow>
     \<exists>ps. snd acc' = snd acc @ ps
        \<and> fst acc' = fst acc + sum_list (map chunks_created ps)
        \<and> map pf_filename ps = map filename (filter supported files)"
proof (induction files arbitrary: acc w)
  case Nil
  then show ?case by simp
next
  case (Cons f files)
  show ?case
  proof (cases "supported f")
    case False
    from Cons.prems have "upload_loop E cfg vs files acc w = (Inr acc', w')"
      unfolding upload_loop_skip [OF False] .
    from Cons.IH [OF this] False show ?thesis by simp
  next
    case True
    let ?ext = "lower (snd (splitext (filename f)))"
    from True Cons.prems obtain acc1 w1 where
      one: "upload_one E cfg vs f ?ext acc w = (Inr acc1, w1)"
      and rest: "upload_loop E cfg vs files acc1 w1 = (Inr acc', w')"
      by (auto simp: supported_def Let_def split: prod.splits sum.splits)
    from upload_one_success [OF one] obtain n url where
      acc1: "acc1 = (fst acc + n,
               snd acc @ [\<lparr>pf_filename = filename f, chunks_created = n, gcs_url = url\<rparr>])"
      by blast
    from Cons.IH [OF rest] obtain ps where
      ps: "snd acc' = snd acc1 @ ps" "fst acc' = fst acc1 + sum_list (map chunks_created ps)"
        "map pf_filename ps = map filename (filter supported files)"
      by blast
    let ?p = "\<lparr>pf_filename = filename f, chunks_created = n, gcs_url = url\<rparr>"
    have "snd acc' = snd acc @ (?p # ps)" using ps(1) acc1 by simp
    moreover have "fst acc' = fst acc + sum_list (map chunks_created (?p # ps))"
      using ps(2) acc1 by simp
    moreover have "map pf_filename (?p # ps) = map filename (filter supported (f # files))"
      using ps(3) True by simp
    ultimately show ?thesis by blast
  qed
qed

text \<open>
  C4. In a successful response \<open>processed_files\<close> has one entry for each file with
  a supported extension, in the order of the request and under the file's name, and
  \<open>total_chunks\<close> is the sum of the entries' chunk counts. So N files that are all
  supported give N entries, and a file with an unsupported extension next to K
  supported ones gives K entries.
\<close>

theorem upload_files_counts:
  assumes "upload_files E environ cfg files w = (Inr r, w')"
  shows "status r = ''success''
     \<and> length (processed_files r) = length (filter supported files)
     \<and> map pf_filename (processed_files r) = map filename (filter supported files)
     \<and> total_chunks r = sum_list (map chunks_created (processed_files r))
     \<and> ((\<forall>f \<in> set files. supported f) \<longrightarrow> length (processed_files r) = length files)"
proof -
  from assms obtain vs acc where
    loop: "upload_loop E cfg vs files (0, []) w = (Inr acc, w')"
    and r: "r = \<lparr>status = ''success'', processed_files = snd acc, total_chunks = fst acc\<rparr>"
    by (auto simp: upload_files_def split: sum.splits prod.splits)
  from upload_loop_success [OF loop] obtain ps where
    ps: "snd acc = ps" "fst acc = sum_list (map chunks_created ps)"
      "map pf_filename ps = map filename (filter supported files)"
    by auto
  have len: "length ps = length (filter supported files)"
    using ps(3) by (metis length_map)
  have "(\<forall>f \<in> set files. supported f) \<longrightarrow> length ps = length files"
    using len by (simp add: filter_id_conv)
  with r ps len show ?thesis by simp
qed

text \<open>
  C4 at a concrete input: two supported files, two entries, one chunk each, two chunks
  in total.
\<close>

theorem upload_files_counts_witness:
  "fst (upload_files env_ok environ_ok config_ok
          [\<lparr>filename = ''notes.txt'', content = ''hello''\<rparr>,
           \<lparr>filename = ''Report.PDF'', content = ''pdf''\<rparr>] world0)
     = Inr \<lparr>status = ''success'',
            processed_files =
              [\<lparr>pf_filename = ''notes.txt'', chunks_created = 1,
                gcs_url = ''https://storage.googleapis.com/documents/0/notes.txt''\<rparr>,
               \<lparr>pf_filename = ''Report.PDF'', chunks_created = 1,
                gcs_url = ''https://storage.googleapis.com/documents/0000000/Report.PDF''\<rparr>],
            total_chunks = 2\<rparr>
   \<and> list_all supported
          [\<lparr>filename = ''notes.txt'', content = ''hello''\<rparr>,
           \<lparr>filename = ''Report.PDF'', content = ''pdf''\<rparr>]
   \<and> length (filter supported
          [\<lparr>filename = ''notes.txt'', content = ''hello''\<rparr>,
           \<lparr>filename = ''Report.PDF'', content = ''pdf''\<rparr>]) = 2"
proof -
  let ?files = "[\<lparr>filename = ''notes.txt'', content = ''hello''\<rparr>,
                 \<lparr>filename = ''Report.PDF'', content = ''pdf''\<rparr>]"
  let ?r = "\<lparr>status = ''success'',
            processed_files =
              [\<lparr>pf_filename = ''notes.txt'', chunks_created = 1,
                gcs_url = ''https://storage.googleapis.com/documents/0/notes.txt''\<rparr>,
               \<lparr>pf_filename = ''Report.PDF'', chunks_created = 1,
                gcs_url = ''https://storage.googleapis.com/documents/0000000/Report.PDF''\<rparr>],
            total_chunks = 2\<rparr>"
  have run: "fst (upload_files env_ok environ_ok config_ok ?files world0) = Inr ?r"
    apply (simp add: run_simps del: Let_def)
    apply (simp add: run_simps)
    done
  then have h: "upload_files env_ok environ_ok config_ok ?files world0
      = (Inr ?r, snd (upload_files env_ok environ_ok config_ok ?files world0))"
    by (metis prod.collapse)
  have sup: "\<forall>f \<in> set ?files. supported f"
    by (simp add: run_simps)
  from upload_files_counts [OF h] sup
  have "length (processed_files ?r) = length (filter supported ?files)
      \<and> length (processed_files ?r) = length ?files"
    by blast
  with run sup show ?thesis by (simp add: list_all_iff)
qed




section \<open>Temporary files\<close>

text \<open>
  The temporary file of an iteration is removed by the \<open>os.unlink\<close> at the end of
  the \<open>with\<close> block and nowhere else. So it is gone after an iteration that
  succeeds (lemma \<open>upload_one_success_removes_tmpfile\<close>), and after a request that
  succeeds none of the files the request created is left. It is still there after an
  iteration that fails (lemma \<open>upload_one_failure_keeps_tmpfile\<close>), and closing the
  handle has then flushed the upload's bytes into it
  (lemma \<open>upload_one_failure_flushes_tmpfile\<close>).
\<close>

lemma upload_loop_success_removes_tmpfiles:
  "upload_loop E cfg vs files acc w = (Inr acc', w') \<Longrightarrow>
     \<exists>evs. trace w' = trace w @ evs
        \<and> (\<forall>p. list_ex (is_tmp_create p) evs \<longrightarrow> \<not> exists_file w' p)
        \<and> (\<forall>p. exists_file w' p \<longrightarrow> exists_file w p)"
proof (induction files arbitrary: acc w)
  case Nil
  then show ?case by simp
next
  case (Cons f files)
  show ?case
  proof (cases "supported f")
    case False
    from Cons.prems have "upload_loop E cfg vs files acc w = (Inr acc', w')"
      unfolding upload_loop_skip [OF False] .
    from Cons.IH [OF this] show ?thesis .
  next
    case True
    let ?ext = "lower (snd (splitext (filename f)))"
    from True Cons.prems obtain acc1 w1 where
      one: "upload_one E cfg vs f ?ext acc w = (Inr acc1, w1)"
      and rest: "upload_loop E cfg vs files acc1 w1 = (Inr acc', w')"
      by (auto simp: supported_def Let_def split: prod.splits sum.splits)
    from one obtain t where t: "NamedTemporaryFile E w ?ext = Inr t"
      by (auto simp: upload_one_def split: sum.splits)
    from upload_one_success_removes_tmpfile [OF t one]
    have gone: "\<not> exists_file w1 t" and sub: "\<And>p. exists_file w1 p \<Longrightarrow> exists_file w p"
      by (auto simp: exists_file_def)
    from upload_one_tmp_create [OF one] t obtain evs1 where
      evs1: "trace w1 = trace w @ evs1" "\<And>p. list_ex (is_tmp_create p) evs1 \<Longrightarrow> p = t"
      by auto
    from Cons.IH [OF rest] obtain evs2 where
      evs2: "trace w' = trace w1 @ evs2"
        "\<And>p. list_ex (is_tmp_create p) evs2 \<Longrightarrow> \<not> exists_file w' p"
        "\<And>p. exists_file w' p \<Longrightarrow> exists_file w1 p"
      by blast
    have "trace w' = trace w @ (evs1 @ evs2)" using evs1(1) evs2(1) by simp
    moreover have "\<not> exists_file w' p" if "list_ex (is_tmp_create p) (evs1 @ evs2)" for p
      using that evs1(2) evs2(2,3) gone by (auto simp: list_ex_iff)
    moreover have "exists_file w p" if "exists_file w' p" for p
      using that evs2(3) sub by blast
    ultimately show ?thesis by blast
  qed
qed

text \<open>
  C1 does not hold on the failure path. One file \<open>notes.txt\<close> is uploaded while
  the blob store is down: the request ends with status 500, and the temporary file
  \<open>/tmp/tmp.txt\<close> written for it is still on the filesystem afterwards.
\<close>

theorem upload_failure_leaves_tmpfile:
  "upload_files env_blob_down environ_ok config_ok
     [\<lparr>filename = ''notes.txt'', content = ''hello''\<rparr>] world0
   = (Inl (HTTPException 500 ''Error processing upload: 503 Service Unavailable''),
      \<lparr>tmpfiles = [(''/tmp/tmp.txt'', ''hello'')],
       trace = [TmpCreate ''/tmp/tmp.txt'',
                BlobUpload ''/tmp/tmp.txt'' ''documents/0/notes.txt'' []]\<rparr>)"
  by (simp add: run_simps env_blob_down_def)

section \<open>The empty upload\<close>

text \<open>
  C10, as stated, fails: a request with no file does not get a success response. The
  \<open>files\<close> parameter is required, and the request is answered with a validation
  error before \<open>upload_files\<close> is called.
\<close>

theorem upload_empty_rejected_counterexample:
  "serve env_ok environ_ok (Upload []) world0 = (Inl (RequestValidationError ''files''), world0)"
  by (simp add: serve_def startup_def load_config_def getenv_def environ_ok_def init_services_def
      env_ok_def handle_def)

text \<open>
  C10, amended. At the interface an upload request with no file is rejected with a
  validation error and changes nothing. The function \<open>upload_files\<close> itself has no
  check for the empty list: applied to it, it returns \<open>success\<close> with no
  processed file and zero chunks when the store handle is built, and raises the
  exception of the handle's construction otherwise.
\<close>

theorem upload_files_empty:
  "handle E environ cfg (Upload []) w = (Inl (RequestValidationError ''files''), w)
   \<and> upload_files E environ cfg [] w =
       (case initialize_vectorstore E environ w of
          Inl e \<Rightarrow> (Inl e, w)
        | Inr vs \<Rightarrow> (Inr \<lparr>status = ''success'', processed_files = [], total_chunks = 0\<rparr>, w))"
  by (simp add: handle_def upload_files_def split: sum.splits)

text \<open>
  C10, amended, at concrete inputs: the rejected request, the function on the empty
  list with a store that answers, and with a store that is down.
\<close>

theorem upload_files_empty_witness:
  "handle env_ok environ_ok config_ok (Upload []) world0
     = (Inl (RequestValidationError ''files''), world0)
   \<and> upload_files env_ok environ_ok config_ok [] world0
     = (Inr \<lparr>status = ''success'', processed_files = [], total_chunks = 0\<rparr>, world0)
   \<and> upload_files env_store_down environ_ok config_ok [] world0
     = (Inl (Exception ''connection refused''), world0)"
  using upload_files_empty [of env_ok environ_ok config_ok world0]
    upload_files_empty [of env_store_down environ_ok config_ok world0]
    init_ok init_store_down
  by simp

section \<open>Properties of question answering\<close>

text \<open>
  \<open>join\<close> puts the separator between consecutive elements and nowhere else: the
  first element is followed by each further one with the separator in front, and
  joining two non-empty lists is joining each and putting one separator between.
\<close>

lemma join_Cons: "join sep (x # xs) = x @ concat (map (\<lambda>y. sep @ y) xs)"
  by (induction xs arbitrary: x) simp_all

lemma join_append:
  "xs \<noteq> [] \<Longrightarrow> ys \<noteq> [] \<Longrightarrow> join sep (xs @ ys) = join sep xs @ sep @ join sep ys"
  by (cases xs; cases ys) (simp_all add: join_Cons)

lemma join_context:
  "join [newline] (map page_content results) =
     (case results of [] \<Rightarrow> []
      | d # ds \<Rightarrow> page_content d @ concat (map (\<lambda>d'. newline # page_content d') ds))"
  by (cases results) (simp_all add: join_Cons comp_def)

lemma ask_question_init_fails:
  assumes "initialize_vectorstore E environ w = Inl e"
  shows "ask_question E environ cfg q w =
     (Inl (HTTPException 500 (''Error processing question: '' @ str_exn E e)), w)"
  using assms by (simp add: ask_question_def ask_question_try_def)

lemma initialize_vectorstore_search_update:
  "initialize_vectorstore (E\<lparr>similarity_search := s'\<rparr>) environ w = initialize_vectorstore E environ w"
  by (auto simp: initialize_vectorstore_def Let_def split: option.splits sum.splits)

lemma str_exn_search_update:
  "str_exn (E\<lparr>similarity_search := s'\<rparr>) e = str_exn E e"
  by (cases e) simp_all

text \<open>
  C6, as stated, fails: when the store handle cannot be built the request ends with
  status 500 and no similarity search has been made.
\<close>

theorem ask_question_no_search_counterexample:
  "ask_question env_store_down environ_ok config_ok ''What is X?'' world0
     = (Inl (HTTPException 500 ''Error processing question: connection refused''), world0)
   \<and> filter is_search
        (trace (snd (ask_question env_store_down environ_ok config_ok ''What is X?'' world0))) = []"
  using ask_question_init_fails [OF init_store_down, of config_ok "''What is X?''"]
  by (simp add: world0_def)

text \<open>
  C6, amended. When building the store handle raises, the request ends with status 500
  and nothing is called. Otherwise the request makes exactly one similarity search, for
  the question itself and with \<open>k = 6\<close>; when that search raises, its message is
  the detail of the 500; and no other query counts: a store that differs only in what it
  answers to other searches gives the same outcome.
\<close>

theorem ask_question_one_search:
  "(\<forall>e. initialize_vectorstore E environ w = Inl e \<longrightarrow>
       ask_question E environ cfg q w =
         (Inl (HTTPException 500 (''Error processing question: '' @ str_exn E e)), w))
   \<and> (\<forall>vs. initialize_vectorstore E environ w = Inr vs \<longrightarrow>
        (\<exists>evs. trace (snd (ask_question E environ cfg q w)) = trace w @ evs
              \<and> filter is_search evs = [SimilaritySearch vs q 6])
      \<and> (\<forall>m. similarity_search E w vs q 6 = Inl m \<longrightarrow>
            ask_question E environ cfg q w =
              (Inl (HTTPException 500 (''Error processing question: '' @ m)),
               emit (SimilaritySearch vs q 6) w))
      \<and> (\<forall>s'. s' w vs q 6 = similarity_search E w vs q 6 \<longrightarrow>
            ask_question (E\<lparr>similarity_search := s'\<rparr>) environ cfg q w
              = ask_question E environ cfg q w))"
proof (intro conjI allI impI)
  fix e assume "initialize_vectorstore E environ w = Inl e"
  then show "ask_question E environ cfg q w =
         (Inl (HTTPException 500 (''Error processing question: '' @ str_exn E e)), w)"
    by (rule ask_question_init_fails)
next
  fix vs assume "initialize_vectorstore E environ w = Inr vs"
  then show "\<exists>evs. trace (snd (ask_question E environ cfg q w)) = trace w @ evs
              \<and> filter is_search evs = [SimilaritySearch vs q 6]"
    by (auto simp: ask_question_def ask_question_try_def Let_def emit_def
        split: sum.splits prod.splits)
next
  fix vs m
  assume "initialize_vectorstore E environ w = Inr vs" "similarity_search E w vs q 6 = Inl m"
  then show "ask_question E environ cfg q w =
              (Inl (HTTPException 500 (''Error processing question: '' @ m)),
               emit (SimilaritySearch vs q 6) w)"
    by (simp add: ask_question_def ask_question_try_def Let_def)
next
  fix vs s'
  assume "initialize_vectorstore E environ w = Inr vs"
    "s' w vs q (6::nat) = similarity_search E w vs q 6"
  then show "ask_question (E\<lparr>similarity_search := s'\<rparr>) environ cfg q w
              = ask_question E environ cfg q w"
    by (auto simp: ask_question_def ask_question_try_def initialize_vectorstore_search_update
        str_exn_search_update Let_def split: sum.splits)
qed

text \<open>
  C6, amended, at concrete inputs: a store that is down, a store that answers, a store
  whose search raises, and a store that only answers a search for six results.
\<close>

theorem ask_question_one_search_witness:
  "ask_question env_store_down environ_ok config_ok ''What is X?'' world0
     = (Inl (HTTPException 500 ''Error processing question: connection refused''), world0)
   \<and> (\<exists>evs. trace (snd (ask_question env_ok environ_ok config_ok ''What is X?'' world0))
               = trace world0 @ evs
            \<and> filter is_search evs = [SimilaritySearch vectorstore_ok ''What is X?'' 6])
   \<and> ask_question env_search_fails environ_ok config_ok ''What is X?'' world0
     = (Inl (HTTPException 500 ''Error processing question: relation does not exist''),
        emit (SimilaritySearch vectorstore_ok ''What is X?'' 6) world0)
   \<and> ask_question env_only_six environ_ok config_ok ''What is X?'' world0
     = ask_question env_ok environ_ok config_ok ''What is X?'' world0"
proof -
  have sf: "similarity_search env_search_fails world0 vectorstore_ok ''What is X?'' 6
      = Inl ''relation does not exist''"
    by (simp add: env_search_fails_def)
  have s6: "similarity_search env_only_six world0 vectorstore_ok ''What is X?'' 6
      = similarity_search env_ok world0 vectorstore_ok ''What is X?'' 6"
    by (simp add: env_only_six_def env_ok_def)
  have e6: "env_ok\<lparr>similarity_search := similarity_search env_only_six\<rparr> = env_only_six"
    by (simp add: env_only_six_def)
  have se: "str_exn env_store_down (Exception ''connection refused'') = ''connection refused''"
    by simp
  from ask_question_one_search [of env_store_down environ_ok world0 config_ok "''What is X?''"]
    init_store_down se
  have 1: "ask_question env_store_down environ_ok config_ok ''What is X?'' world0
     = (Inl (HTTPException 500 ''Error processing question: connection refused''), world0)"
    by simp
  from ask_question_one_search [of env_ok environ_ok world0 config_ok "''What is X?''"] init_ok
  have 2: "\<exists>evs. trace (snd (ask_question env_ok environ_ok config_ok ''What is X?'' world0))
               = trace world0 @ evs
            \<and> filter is_search evs = [SimilaritySearch vectorstore_ok ''What is X?'' 6]"
    by blast
  from ask_question_one_search [of env_search_fails environ_ok world0 config_ok "''What is X?''"]
    init_other(7) sf
  have 3: "ask_question env_search_fails environ_ok config_ok ''What is X?'' world0
     = (Inl (HTTPException 500 ''Error processing question: relation does not exist''),
        emit (SimilaritySearch vectorstore_ok ''What is X?'' 6) world0)"
    by simp
  from ask_question_one_search [of env_ok environ_ok world0 config_ok "''What is X?''"] init_ok s6
  have "ask_question (env_ok\<lparr>similarity_search := similarity_search env_only_six\<rparr>)
        environ_ok config_ok ''What is X?'' world0
     = ask_question env_ok environ_ok config_ok ''What is X?'' world0"
    by blast
  then have 4: "ask_question env_only_six environ_ok config_ok ''What is X?'' world0
     = ask_question env_ok environ_ok config_ok ''What is X?'' world0"
    unfolding e6 .
  from 1 2 3 4 show ?thesis by (intro conjI)
qed

text \<open>
  C7. When the store returns results, the context is the page content of the first
  result followed by a newline and the page content of each further result, in the
  order returned (the empty string for no result); the prompt built from the question
  and that context is what the generative model is called with, whatever the number of
  results; the answer returned is the model's text, next to the question, and a model
  that raises gives a 500.
\<close>

theorem ask_question_context:
  assumes init: "initialize_vectorstore E environ w = Inr vs"
    and search: "similarity_search E w vs q 6 = Inr results"
  shows
   "(let context = (case results of [] \<Rightarrow> []
                    | d # ds \<Rightarrow> page_content d @ concat (map (\<lambda>d'. newline # page_content d') ds));
         prompt = generate_rag_prompt q context;
         w1 = emit (SimilaritySearch vs q 6) w
     in snd (ask_question E environ cfg q w) = emit (GenerateContent ''gemini-pro'' prompt) w1
      \<and> (\<forall>text. generate_content E w1 (GEMINI_API_KEY cfg) ''gemini-pro'' prompt = Inr text \<longrightarrow>
            fst (ask_question E environ cfg q w) = Inr \<lparr>question = q, answer = text\<rparr>)
      \<and> (\<forall>m. generate_content E w1 (GEMINI_API_KEY cfg) ''gemini-pro'' prompt = Inl m \<longrightarrow>
            fst (ask_question E environ cfg q w)
              = Inl (HTTPException 500 (''Error processing question: '' @ m))))"
  using assms
  by (auto simp: ask_question_def ask_question_try_def Let_def join_context
      split: sum.splits)

text \<open>
  C7 at concrete inputs: two results give the context of two lines; no result gives the
  empty context and the model is called all the same; a model that raises gives a 500.
\<close>

theorem ask_question_context_witness:
  "snd (ask_question env_two_hits environ_ok config_ok ''What is X?'' world0)
     = emit (GenerateContent ''gemini-pro''
               (generate_rag_prompt ''What is X?''
                  (''X is a letter.'' @ [newline] @ ''It comes before Y.'')))
         (emit (SimilaritySearch vectorstore_ok ''What is X?'' 6) world0)
   \<and> fst (ask_question env_two_hits environ_ok config_ok ''What is X?'' world0)
     = Inr \<lparr>question = ''What is X?'', answer = ''I do not know.''\<rparr>
   \<and> snd (ask_question env_ok environ_ok config_ok ''What is X?'' world0)
     = emit (GenerateContent ''gemini-pro'' (generate_rag_prompt ''What is X?'' []))
         (emit (SimilaritySearch vectorstore_ok ''What is X?'' 6) world0)
   \<and> fst (ask_question env_ok environ_ok config_ok ''What is X?'' world0)
     = Inr \<lparr>question = ''What is X?'', answer = ''I do not know.''\<rparr>
   \<and> fst (ask_question env_quota environ_ok config_ok ''What is X?'' world0)
     = Inl (HTTPException 500 ''Error processing question: quota exceeded'')"
proof -
  let ?q = "''What is X?''"
  have s2: "similarity_search env_two_hits world0 vectorstore_ok ?q 6
      = Inr [\<lparr>page_content = ''X is a letter.'', metadata = []\<rparr>,
             \<lparr>page_content = ''It comes before Y.'', metadata = []\<rparr>]"
    by (simp add: env_two_hits_def)
  have s0: "similarity_search env_ok world0 vectorstore_ok ?q 6 = Inr []"
    by (simp add: env_ok_def)
  have sq: "similarity_search env_quota world0 vectorstore_ok ?q 6 = Inr []"
    by (simp add: env_quota_def env_ok_def)
  have iq: "initialize_vectorstore env_quota environ_ok world0 = Inr vectorstore_ok"
    by (simp add: run_simps env_quota_def)
  have g2: "generate_content env_two_hits w k m p = Inr ''I do not know.''" for w k m p
    by (simp add: env_two_hits_def env_ok_def)
  have g0: "generate_content env_ok w k m p = Inr ''I do not know.''" for w k m p
    by (simp add: env_ok_def)
  have gq: "generate_content env_quota w k m p = Inl ''quota exceeded''" for w k m p
    by (simp add: env_quota_def)
  from ask_question_context [OF init_other(8) s2, of config_ok]
  have 1: "snd (ask_question env_two_hits environ_ok config_ok ?q world0)
     = emit (GenerateContent ''gemini-pro''
               (generate_rag_prompt ?q (''X is a letter.'' @ [newline] @ ''It comes before Y.'')))
         (emit (SimilaritySearch vectorstore_ok ?q 6) world0)
   \<and> fst (ask_question env_two_hits environ_ok config_ok ?q world0)
     = Inr \<lparr>question = ?q, answer = ''I do not know.''\<rparr>"
    by (simp add: Let_def g2)
  from ask_question_context [OF init_ok s0, of config_ok]
  have 2: "snd (ask_question env_ok environ_ok config_ok ?q world0)
     = emit (GenerateContent ''gemini-pro'' (generate_rag_prompt ?q []))
         (emit (SimilaritySearch vectorstore_ok ?q 6) world0)
   \<and> fst (ask_question env_ok environ_ok config_ok ?q world0)
     = Inr \<lparr>question = ?q, answer = ''I do not know.''\<rparr>"
    by (simp add: Let_def g0)
  from ask_question_context [OF iq sq, of config_ok]
  have 3: "fst (ask_question env_quota environ_ok config_ok ?q world0)
     = Inl (HTTPException 500 ''Error processing question: quota exceeded'')"
    by (simp add: Let_def gq)
  from 1 2 3 show ?thesis by simp
qed

section \<open>Properties of start-up and configuration\<close>

text \<open>
  C8, as stated, fails: a variable that is set to the empty string is present, and
  start-up raises all the same.
\<close>

theorem load_config_empty_counterexample:
  "[''GEMINI_API_KEY'' \<mapsto> [], ''GCS_BUCKET_NAME'' \<mapsto> ''bucket'', ''DATABASE_URL'' \<mapsto> ''postgresql://db''] ''GEMINI_API_KEY'' \<noteq> None
  \<and> [''GEMINI_API_KEY'' \<mapsto> [], ''GCS_BUCKET_NAME'' \<mapsto> ''bucket'', ''DATABASE_URL'' \<mapsto> ''postgresql://db''] ''GCS_BUCKET_NAME'' \<noteq> None
  \<and> [''GEMINI_API_KEY'' \<mapsto> [], ''GCS_BUCKET_NAME'' \<mapsto> ''bucket'', ''DATABASE_URL'' \<mapsto> ''postgresql://db''] ''DATABASE_URL'' \<noteq> None
  \<and> startup env_ok [''GEMINI_API_KEY'' \<mapsto> [], ''GCS_BUCKET_NAME'' \<mapsto> ''bucket'', ''DATABASE_URL'' \<mapsto> ''postgresql://db'']
      = Inl (ValueError ''Missing required environment variables'')"
  by (simp add: startup_def load_config_def getenv_def)

text \<open>
  C8, amended. If one of the three variables is absent or empty, start-up raises
  \<open>ValueError\<close> and no request is served. If all three are present and not
  empty, the configuration check passes and start-up goes on to set up the services.
\<close>

theorem startup_config_check:
  "((\<exists>k \<in> {''GEMINI_API_KEY'', ''GCS_BUCKET_NAME'', ''DATABASE_URL''}.
        environ k = None \<or> environ k = Some [])
      \<longrightarrow> startup E environ = Inl (ValueError ''Missing required environment variables'')
        \<and> serve E environ req w = (Inl (ValueError ''Missing required environment variables''), w))
   \<and> ((\<forall>k \<in> {''GEMINI_API_KEY'', ''GCS_BUCKET_NAME'', ''DATABASE_URL''}.
        \<exists>v. environ k = Some v \<and> v \<noteq> [])
      \<longrightarrow> load_config environ =
            Inr \<lparr>GEMINI_API_KEY = environ ''GEMINI_API_KEY'',
                 BUCKET_NAME = environ ''GCS_BUCKET_NAME'',
                 DB_CONNECTION = environ ''DATABASE_URL''\<rparr>
        \<and> startup E environ =
            (case init_services E of
               Inl e \<Rightarrow> Inl e
             | Inr _ \<Rightarrow> Inr \<lparr>GEMINI_API_KEY = environ ''GEMINI_API_KEY'',
                               BUCKET_NAME = environ ''GCS_BUCKET_NAME'',
                               DB_CONNECTION = environ ''DATABASE_URL''\<rparr>))"
proof -
  have truthy_iff: "\<And>x. truthy x \<longleftrightarrow> (\<exists>v. x = Some v \<and> v \<noteq> [])"
    by (case_tac x) auto
  show ?thesis
    by (auto simp: serve_def startup_def load_config_def getenv_def Let_def truthy_iff)
qed


text \<open>
  C8, amended, at concrete inputs: without \<open>DATABASE_URL\<close> no request is served;
  with the three variables set and not empty the check passes.
\<close>

theorem startup_config_check_witness:
  "(\<exists>k \<in> {''GEMINI_API_KEY'', ''GCS_BUCKET_NAME'', ''DATABASE_URL''}.
        (environ_ok(''DATABASE_URL'' := None)) k = None \<or> (environ_ok(''DATABASE_URL'' := None)) k = Some [])
   \<and> serve env_ok (environ_ok(''DATABASE_URL'' := None)) Root world0
       = (Inl (ValueError ''Missing required environment variables''), world0)
   \<and> (\<exists>v. environ_ok ''GEMINI_API_KEY'' = Some v \<and> v \<noteq> [])
   \<and> (\<exists>v. environ_ok ''GCS_BUCKET_NAME'' = Some v \<and> v \<noteq> [])
   \<and> (\<exists>v. environ_ok ''DATABASE_URL'' = Some v \<and> v \<noteq> [])
   \<and> load_config environ_ok = Inr config_ok"
proof -
  have a: "\<exists>k \<in> {''GEMINI_API_KEY'', ''GCS_BUCKET_NAME'', ''DATABASE_URL''}.
        (environ_ok(''DATABASE_URL'' := None)) k = None \<or> (environ_ok(''DATABASE_URL'' := None)) k = Some []"
    by simp
  have b: "\<forall>k \<in> {''GEMINI_API_KEY'', ''GCS_BUCKET_NAME'', ''DATABASE_URL''}.
        \<exists>v. environ_ok k = Some v \<and> v \<noteq> []"
    by (simp add: environ_ok_def)
  have c: "\<lparr>GEMINI_API_KEY = environ_ok ''GEMINI_API_KEY'',
            BUCKET_NAME = environ_ok ''GCS_BUCKET_NAME'',
            DB_CONNECTION = environ_ok ''DATABASE_URL''\<rparr> = config_ok"
    by (simp add: environ_ok_def config_ok_def)
  from startup_config_check [of "environ_ok(''DATABASE_URL'' := None)" env_ok Root world0] a
  have 1: "serve env_ok (environ_ok(''DATABASE_URL'' := None)) Root world0
       = (Inl (ValueError ''Missing required environment variables''), world0)"
    by blast
  from startup_config_check [of environ_ok env_ok Root world0] b c
  have 2: "load_config environ_ok = Inr config_ok"
    by simp
  from a b 1 2 show ?thesis by simp
qed

lemma upload_to_gcs_cfg:
  assumes "BUCKET_NAME c1 = BUCKET_NAME c2"
  shows "upload_to_gcs E c1 = upload_to_gcs E c2"
  using assms by (intro ext) (simp add: upload_to_gcs_def)

lemma upload_one_cfg:
  assumes "BUCKET_NAME c1 = BUCKET_NAME c2"
  shows "upload_one E c1 = upload_one E c2"
  unfolding upload_one_def upload_written_def upload_to_gcs_cfg [OF assms] ..

lemma upload_loop_cfg:
  assumes "BUCKET_NAME c1 = BUCKET_NAME c2"
  shows "upload_loop E c1 vs files acc w = upload_loop E c2 vs files acc w"
  by (induction files arbitrary: acc w)
    (simp_all add: upload_one_cfg [OF assms] Let_def split: prod.splits sum.splits)

lemma upload_files_cfg:
  assumes "BUCKET_NAME c1 = BUCKET_NAME c2"
    and "initialize_vectorstore E e1 w = initialize_vectorstore E e2 w"
  shows "upload_files E e1 c1 files w = upload_files E e2 c2 files w"
  unfolding upload_files_def assms(2) upload_loop_cfg [OF assms(1)] ..

lemma ask_question_cfg:
  assumes "GEMINI_API_KEY c1 = GEMINI_API_KEY c2"
    and "initialize_vectorstore E e1 w = initialize_vectorstore E e2 w"
  shows "ask_question E e1 c1 q w = ask_question E e2 c2 q w"
  unfolding ask_question_def ask_question_try_def assms ..

lemma handle_depends:
  assumes "GEMINI_API_KEY c1 = GEMINI_API_KEY c2" "BUCKET_NAME c1 = BUCKET_NAME c2"
    and "initialize_vectorstore E e1 w = initialize_vectorstore E e2 w"
  shows "handle E e1 c1 req w = handle E e2 c2 req w"
  unfolding handle_def upload_files_cfg [OF assms(2,3)] ask_question_cfg [OF assms(1,3)] ..

lemma getenv_default_cong: "e1 k = e2 k \<Longrightarrow> getenv_default e1 k = getenv_default e2 k"
  by (intro ext) (simp add: getenv_default_def)

lemma initialize_vectorstore_depends:
  assumes "\<forall>k \<in> {''DB_HOST'', ''DB_PORT'', ''DB_NAME'', ''DB_USER'', ''DB_PASSWORD''}. e1 k = e2 k"
  shows "initialize_vectorstore E e1 w = initialize_vectorstore E e2 w"
proof -
  from assms have k: "e1 ''DB_HOST'' = e2 ''DB_HOST''" "e1 ''DB_PORT'' = e2 ''DB_PORT''"
    "e1 ''DB_NAME'' = e2 ''DB_NAME''" "e1 ''DB_USER'' = e2 ''DB_USER''"
    "e1 ''DB_PASSWORD'' = e2 ''DB_PASSWORD''"
    by simp_all
  show ?thesis
    unfolding initialize_vectorstore_def
      getenv_default_cong [of e1 "''DB_HOST''" e2, OF k(1)]
      getenv_default_cong [of e1 "''DB_PORT''" e2, OF k(2)]
      getenv_default_cong [of e1 "''DB_NAME''" e2, OF k(3)]
      getenv_default_cong [of e1 "''DB_USER''" e2, OF k(4)]
      getenv_default_cong [of e1 "''DB_PASSWORD''" e2, OF k(5)] ..
qed

lemma load_config_database_url:
  assumes "v \<noteq> []"
  shows "load_config (environ(''DATABASE_URL'' \<mapsto> v)) =
     (if truthy (environ ''GEMINI_API_KEY'') \<and> truthy (environ ''GCS_BUCKET_NAME'')
      then Inr \<lparr>GEMINI_API_KEY = environ ''GEMINI_API_KEY'',
                BUCKET_NAME = environ ''GCS_BUCKET_NAME'', DB_CONNECTION = Some v\<rparr>
      else Inl (ValueError ''Missing required environment variables''))"
  using assms by (simp add: load_config_def getenv_def Let_def)

text \<open>
  C9. Two runs that differ only in the (non-empty) value of \<open>DATABASE_URL\<close> serve
  every request alike. The store handle is the same with and without the variable,
  and any two environments that agree on the five \<open>DB_*\<close> variables give the same
  handle.
\<close>

theorem database_url_not_used:
  assumes "v1 \<noteq> []" "v2 \<noteq> []"
  shows "serve E (environ(''DATABASE_URL'' \<mapsto> v1)) req w
           = serve E (environ(''DATABASE_URL'' \<mapsto> v2)) req w
       \<and> initialize_vectorstore E (environ(''DATABASE_URL'' \<mapsto> v1)) w
           = initialize_vectorstore E (environ(''DATABASE_URL'' := None)) w
       \<and> ((\<forall>k \<in> {''DB_HOST'', ''DB_PORT'', ''DB_NAME'', ''DB_USER'', ''DB_PASSWORD''}.
             environ k = environ' k)
           \<longrightarrow> initialize_vectorstore E environ w = initialize_vectorstore E environ' w)"
proof -
  let ?e1 = "environ(''DATABASE_URL'' \<mapsto> v1)" and ?e2 = "environ(''DATABASE_URL'' \<mapsto> v2)"
  have init: "initialize_vectorstore E ?e1 w = initialize_vectorstore E ?e2 w"
    by (rule initialize_vectorstore_depends) simp
  have init0: "initialize_vectorstore E ?e1 w
      = initialize_vectorstore E (environ(''DATABASE_URL'' := None)) w"
    by (rule initialize_vectorstore_depends) simp
  have "serve E ?e1 req w = serve E ?e2 req w"
    unfolding serve_def startup_def load_config_database_url [OF assms(1)]
      load_config_database_url [OF assms(2)]
    by (simp add: handle_depends [OF _ _ init] split: sum.splits)
  with init0 initialize_vectorstore_depends [of environ environ' E w] show ?thesis
    by blast
qed

text \<open>
  C9 at concrete inputs: two values of \<open>DATABASE_URL\<close>, one question.
\<close>

theorem database_url_not_used_witness:
  "''postgresql://a'' \<noteq> [] \<and> ''sqlite:///b'' \<noteq> []
   \<and> serve env_ok (environ_ok(''DATABASE_URL'' \<mapsto> ''postgresql://a'')) (Ask ''What is X?'') world0
       = serve env_ok (environ_ok(''DATABASE_URL'' \<mapsto> ''sqlite:///b'')) (Ask ''What is X?'') world0
   \<and> initialize_vectorstore env_ok (environ_ok(''DATABASE_URL'' \<mapsto> ''postgresql://a'')) world0
       = initialize_vectorstore env_ok (environ_ok(''DB_HOST'' := None)) world0"
proof -
  have ne: "''postgresql://a'' \<noteq> []" "''sqlite:///b'' \<noteq> []" by simp_all
  have same: "\<forall>k \<in> {''DB_HOST'', ''DB_PORT'', ''DB_NAME'', ''DB_USER'', ''DB_PASSWORD''}.
      (environ_ok(''DATABASE_URL'' := None)) k = (environ_ok(''DB_HOST'' := None)) k"
    by (simp add: environ_ok_def)
  from database_url_not_used [OF ne, where environ = environ_ok and E = env_ok
      and req = "Ask ''What is X?''" and w = world0
      and environ' = "environ_ok(''DB_HOST'' := None)"]
    database_url_not_used [OF ne, where environ = "environ_ok(''DATABASE_URL'' := None)"
      and E = env_ok and req = "Ask ''What is X?''" and w = world0
      and environ' = "environ_ok(''DB_HOST'' := None)"] same
  show ?thesis by simp
qed

end
